theory Spec2Isabelle
  imports Complex_Main "HOL-Library.AList"
begin

section \<open>Data of the trading framework that the engine and the template handle\<close>

text \<open>
  The enumerations of \<^verbatim>\<open>vnpy.trader.constant\<close>. The source names \<^verbatim>\<open>Direction.LONG\<close>,
  \<^verbatim>\<open>Direction.SHORT\<close>, \<^verbatim>\<open>Offset.OPEN\<close>, \<^verbatim>\<open>Offset.CLOSE\<close> and \<^verbatim>\<open>OrderType.LIMIT\<close>;
  the remaining members are those of the framework, kept so that an \<^verbatim>\<open>else\<close> branch of
  the source is a real branch of the model.
\<close>

datatype Direction = LONG | SHORT | NET

datatype Offset = NONE | OPEN | CLOSE | CLOSETODAY | CLOSEYESTERDAY

datatype OrderType = LIMIT | MARKET | STOP | FAK | FOK

datatype Interval = MINUTE | HOUR | DAILY | WEEKLY | TICK

text \<open>
  The primitive Python values of strategy parameters and variables: \<^verbatim>\<open>None\<close>, booleans,
  integers, floats and strings.
\<close>

datatype pyval =
    PNone
  | PBool bool
  | PInt int
  | PFloat real
  | PStr string

datatype py_error = KeyError string | AttributeError string | TypeError string | ValueError string

text \<open>What a strategy hook did: it returned, or it raised (with the traceback text).\<close>

datatype outcome = Returned | Raised string

text \<open>
  The data classes of \<^verbatim>\<open>vnpy.trader.object\<close>, with the fields the engine and the
  template read. A time is a number of seconds and a reference names a strategy object.
  The volume of a fill and the positions and targets are integers (lots), as
  \<^verbatim>\<open>pos_data: Dict[str, int]\<close> and \<^verbatim>\<open>target_data: Dict[str, int]\<close> declare them. Prices, and
  the volume of an order request, are the framework's floats; the model carries them as
  reals and never computes with them itself: they only pass through \<^verbatim>\<open>round_to\<close> and
  \<^verbatim>\<open>calculate_price\<close>, which are parameters.
\<close>

type_synonym datetime = int

type_synonym ref = nat

record TradeData =
  trade_vt_tradeid :: string
  trade_vt_orderid :: string
  trade_vt_symbol :: string
  trade_direction :: Direction
  trade_volume :: int

record OrderData =
  order_vt_orderid :: string
  order_orderid :: string
  order_symbol :: string
  order_exchange :: string
  order_gateway_name :: string
  order_active :: bool

record BarData =
  bar_symbol :: string
  bar_exchange :: string
  bar_datetime :: datetime
  bar_interval :: "Interval option"
  bar_volume :: real
  bar_turnover :: real
  bar_open_interest :: real
  bar_open_price :: real
  bar_high_price :: real
  bar_low_price :: real
  bar_close_price :: real
  bar_gateway_name :: string

record ContractData =
  contract_symbol :: string
  contract_exchange :: string
  contract_size :: real
  contract_pricetick :: real
  contract_min_volume :: real
  contract_history_data :: bool
  contract_gateway_name :: string

record OrderRequest =
  req_symbol :: string
  req_exchange :: string
  req_direction :: Direction
  req_offset :: Offset
  req_type :: OrderType
  req_price :: real
  req_volume :: real
  req_reference :: string

record CancelRequest =
  cancel_orderid :: string
  cancel_symbol :: string
  cancel_exchange :: string

record SubscribeRequest =
  sub_symbol :: string
  sub_exchange :: string

record HistoryRequest =
  hist_symbol :: string
  hist_exchange :: string
  hist_interval :: Interval
  hist_start :: datetime
  hist_end :: datetime

section \<open>The strategy template (template.py)\<close>

text \<open>
  The value of a parameter or variable, as a dictionary of variables holds it: a
  primitive value, a dictionary of integers of its own (as read from the data file), or
  the \<^verbatim>\<open>pos_data\<close> or \<^verbatim>\<open>target_data\<close> dictionary object of a strategy, held by reference:
  what it contains is what that strategy's dictionary contains at the time it is read.
\<close>

datatype ledger_name = PosData | TargetData

datatype var_value =
    Prim pyval
  | DictValue "(string \<times> int) list"
  | LedgerRef ref ledger_name

text \<open>
  The fields of \<^verbatim>\<open>StrategyTemplate.__init__\<close>. \<^verbatim>\<open>pos_data\<close> and \<^verbatim>\<open>target_data\<close> are
  \<^verbatim>\<open>defaultdict(int)\<close>: association lists in insertion order, read with the default 0.
  \<^verbatim>\<open>active_orderids\<close> is a Python set; the model keeps it as a list without
  duplicates, whose order stands for the iteration order of the set. \<^verbatim>\<open>attrs\<close> holds the
  attributes a concrete strategy class adds (its parameters and variables).
\<close>

record StrategyTemplate =
  strategy_name :: string
  vt_symbols :: "string list"
  inited :: bool
  trading :: bool
  pos_data :: "(string \<times> int) list"
  target_data :: "(string \<times> int) list"
  orders :: "(string \<times> OrderData) list"
  active_orderids :: "string list"
  variables :: "string list"
  parameters :: "string list"
  class_name :: string
  author :: string
  attrs :: "(string \<times> var_value) list"

text \<open>\<^verbatim>\<open>APP_NAME\<close> of base.py.\<close>

definition APP_NAME :: string where
  "APP_NAME = ''PortfolioStrategy''"

text \<open>The dictionary that \<^verbatim>\<open>get_data\<close> builds, one field per key.\<close>

record StrategyInfo =
  info_strategy_name :: string
  info_vt_symbols :: "string list"
  info_class_name :: string
  info_author :: string
  info_parameters :: "(string \<times> var_value) list"
  info_variables :: "(string \<times> var_value) list"

text \<open>
  The events put on the event engine: \<^verbatim>\<open>EVENT_PORTFOLIO_LOG\<close> with the log message and
  \<^verbatim>\<open>EVENT_PORTFOLIO_STRATEGY\<close> with the dictionary of \<^verbatim>\<open>get_data\<close>.
\<close>

datatype Event =
    PortfolioLog string
  | PortfolioStrategy StrategyInfo

text \<open>
  Every call that leaves the engine for a collaborator and has an effect there, in the
  order in which it is made.
\<close>

datatype ext_call =
    EventPut Event
  | MainSendOrder OrderRequest string
  | MainUpdateOrderRequest OrderRequest string string
  | MainCancelOrder CancelRequest string
  | MainSubscribe SubscribeRequest string
  | MainQueryHistory HistoryRequest string
  | DatafeedQueryBarHistory HistoryRequest
  | DatabaseLoadBarData string string Interval datetime datetime
  | SaveJson string "(string \<times> (string \<times> var_value) list) list"

text \<open>
  The state of \<^verbatim>\<open>StrategyEngine\<close>. Strategy objects live in \<^verbatim>\<open>objs\<close>; the dictionaries
  of the engine hold references to them, as the Python dictionaries do.
\<close>

record StrategyEngine =
  strategy_data :: "(string \<times> (string \<times> var_value) list) list"
  strategies :: "string \<rightharpoonup> ref"
  symbol_strategy_map :: "string \<Rightarrow> ref list"
  orderid_strategy_map :: "string \<rightharpoonup> ref"
  vt_tradeids :: "string set"
  objs :: "ref \<Rightarrow> StrategyTemplate"
  calls :: "ext_call list"

text \<open>
  The collaborators and the overridable hooks, as the engine sees them. The answers of
  the main engine, the data feed and the database are functions of the request (and,
  where an identifier is handed out, of the calls made so far). \<^verbatim>\<open>round_to\<close> and
  \<^verbatim>\<open>extract_vt_symbol\<close> are the utilities of \<^verbatim>\<open>vnpy.trader.utility\<close>. The hooks are the
  virtual methods of the template, which a concrete strategy overrides: each takes the
  reference of its strategy and the engine state, and returns or raises.
\<close>

record env =
  get_contract :: "string \<Rightarrow> ContractData option"
  get_order :: "string \<Rightarrow> OrderData option"
  convert_order_request :: "OrderRequest \<Rightarrow> string \<Rightarrow> bool \<Rightarrow> bool \<Rightarrow> OrderRequest list"
  main_send_order :: "ext_call list \<Rightarrow> OrderRequest \<Rightarrow> string \<Rightarrow> string"
  query_history :: "HistoryRequest \<Rightarrow> string \<Rightarrow> BarData list"
  query_bar_history :: "HistoryRequest \<Rightarrow> BarData list"
  load_bar_data :: "string \<Rightarrow> string \<Rightarrow> Interval \<Rightarrow> datetime \<Rightarrow> datetime \<Rightarrow> BarData list"
  round_to :: "real \<Rightarrow> real \<Rightarrow> real"
  extract_vt_symbol :: "string \<Rightarrow> (string \<times> string) option"
  now :: datetime
  on_init :: "ref \<Rightarrow> StrategyEngine \<Rightarrow> outcome \<times> StrategyEngine"
  on_stop :: "ref \<Rightarrow> StrategyEngine \<Rightarrow> outcome \<times> StrategyEngine"
  on_bars :: "ref \<Rightarrow> (string \<times> BarData) list \<Rightarrow> StrategyEngine \<Rightarrow> outcome \<times> StrategyEngine"
  calculate_price :: "ref \<Rightarrow> string \<Rightarrow> Direction \<Rightarrow> real \<Rightarrow> real"

text \<open>A method of the strategy object at reference \<open>r\<close> that only changes that object.\<close>

definition on_obj :: "ref \<Rightarrow> (StrategyTemplate \<Rightarrow> StrategyTemplate) \<Rightarrow> StrategyEngine \<Rightarrow> StrategyEngine" where
  "on_obj r f e = e\<lparr>objs := (objs e)(r := f (objs e r))\<rparr>"

text \<open>\<^verbatim>\<open>StrategyEngine.write_log\<close>: the strategy's name is put before the message.\<close>

definition write_log :: "string \<Rightarrow> ref option \<Rightarrow> StrategyEngine \<Rightarrow> StrategyEngine" where
  "write_log msg strategy e =
     (let msg' = (case strategy of
                    Some r \<Rightarrow> strategy_name (objs e r) @ '': '' @ msg
                  | None \<Rightarrow> msg)
      in e\<lparr>calls := calls e @ [EventPut (PortfolioLog msg')]\<rparr>)"

text \<open>
  \<^verbatim>\<open>StrategyEngine.call_strategy_func\<close>. \<open>func\<close> is the call the source makes in the
  \<^verbatim>\<open>try\<close> block (\<^verbatim>\<open>func(params)\<close> when \<^verbatim>\<open>params\<close> is true, else \<^verbatim>\<open>func()\<close>); an exception
  forces both flags of the strategy to false and is logged.
\<close>

definition call_strategy_func ::
  "ref \<Rightarrow> (StrategyEngine \<Rightarrow> outcome \<times> StrategyEngine) \<Rightarrow> StrategyEngine \<Rightarrow> StrategyEngine" where
  "call_strategy_func r func e =
     (case func e of
        (Returned, e1) \<Rightarrow> e1
      | (Raised tb, e1) \<Rightarrow>
          write_log (''Trigger exception stopped \<newline>'' @ tb) (Some r)
            (on_obj r (\<lambda>s. s\<lparr>trading := False, inited := False\<rparr>) e1))"

subsection \<open>Positions and trades\<close>

text \<open>\<^verbatim>\<open>get_pos\<close>: \<^verbatim>\<open>self.pos_data.get(vt_symbol, 0)\<close>.\<close>

definition get_pos :: "StrategyTemplate \<Rightarrow> string \<Rightarrow> int" where
  "get_pos s vt_symbol = (case map_of (pos_data s) vt_symbol of Some p \<Rightarrow> p | None \<Rightarrow> 0)"

text \<open>
  \<^verbatim>\<open>update_trade\<close>: a LONG fill adds the volume, every other direction subtracts it.
  \<^verbatim>\<open>pos_data[k] += v\<close> on a defaultdict reads 0 for a missing key and stores the sum.
\<close>

definition update_trade :: "TradeData \<Rightarrow> StrategyTemplate \<Rightarrow> StrategyTemplate" where
  "update_trade trade s =
     (if trade_direction trade = LONG
      then s\<lparr>pos_data := AList.update (trade_vt_symbol trade)
                 (get_pos s (trade_vt_symbol trade) + trade_volume trade) (pos_data s)\<rparr>
      else s\<lparr>pos_data := AList.update (trade_vt_symbol trade)
                 (get_pos s (trade_vt_symbol trade) - trade_volume trade) (pos_data s)\<rparr>)"

text \<open>
  \<^verbatim>\<open>process_trade_event\<close>: a trade id seen before is dropped; otherwise it is recorded,
  and the fill goes to the strategy that owns the order id, if there is one.
\<close>

definition process_trade_event :: "TradeData \<Rightarrow> StrategyEngine \<Rightarrow> StrategyEngine" where
  "process_trade_event trade e =
     (if trade_vt_tradeid trade \<in> vt_tradeids e then e
      else
        let e1 = e\<lparr>vt_tradeids := insert (trade_vt_tradeid trade) (vt_tradeids e)\<rparr>
        in case orderid_strategy_map e1 (trade_vt_orderid trade) of
             None \<Rightarrow> e1
           | Some r \<Rightarrow>
               call_strategy_func r (\<lambda>e'. (Returned, on_obj r (update_trade trade) e')) e1)"

text \<open>The trade events of a feed, delivered one after the other.\<close>

fun process_trade_events :: "TradeData list \<Rightarrow> StrategyEngine \<Rightarrow> StrategyEngine" where
  "process_trade_events [] e = e"
| "process_trade_events (t # ts) e = process_trade_events ts (process_trade_event t e)"

text \<open>
  The fills that count, in the words of the specification: of the deliveries of one
  trade id only the first counts, and none counts for an id that was applied before.
\<close>

fun first_deliveries :: "string set \<Rightarrow> TradeData list \<Rightarrow> TradeData list" where
  "first_deliveries seen [] = []"
| "first_deliveries seen (t # ts) =
     (if trade_vt_tradeid t \<in> seen then first_deliveries seen ts
      else t # first_deliveries (insert (trade_vt_tradeid t) seen) ts)"

definition signed_volume :: "TradeData \<Rightarrow> int" where
  "signed_volume t = (if trade_direction t = LONG then trade_volume t else - trade_volume t)"

subsection \<open>Placing and cancelling orders\<close>

text \<open>
  What \<^verbatim>\<open>StrategyEngine.send_order\<close> returns: the empty string when the contract is
  not found, a list of order ids otherwise. Iterating a string gives its characters.
\<close>

datatype py_ids = PyStr string | PyList "string list"

fun iter_ids :: "py_ids \<Rightarrow> string list" where
  "iter_ids (PyStr s) = map (\<lambda>c. [c]) s"
| "iter_ids (PyList l) = l"

text \<open>The loop over \<^verbatim>\<open>req_list\<close> in \<^verbatim>\<open>StrategyEngine.send_order\<close>.\<close>

fun send_reqs ::
  "env \<Rightarrow> ref \<Rightarrow> string \<Rightarrow> OrderRequest list \<Rightarrow> string list \<Rightarrow> StrategyEngine
    \<Rightarrow> string list \<times> StrategyEngine" where
  "send_reqs en r gw [] vt_orderids e = (vt_orderids, e)"
| "send_reqs en r gw (req # reqs) vt_orderids e =
     (let vt_orderid = main_send_order en (calls e) req gw;
          e1 = e\<lparr>calls := calls e @ [MainSendOrder req gw]\<rparr>
      in if vt_orderid = [] then send_reqs en r gw reqs vt_orderids e1
         else send_reqs en r gw reqs (vt_orderids @ [vt_orderid])
                (e1\<lparr>calls := calls e1 @ [MainUpdateOrderRequest req vt_orderid gw],
                    orderid_strategy_map := (orderid_strategy_map e1)(vt_orderid \<mapsto> r)\<rparr>))"

text \<open>The request that \<^verbatim>\<open>StrategyEngine.send_order\<close> builds once the contract is known.\<close>

definition original_req ::
  "env \<Rightarrow> ContractData \<Rightarrow> StrategyTemplate \<Rightarrow> Direction \<Rightarrow> Offset \<Rightarrow> real \<Rightarrow> real \<Rightarrow> OrderRequest" where
  "original_req en contract s direction offset price volume =
     \<lparr>req_symbol = contract_symbol contract,
      req_exchange = contract_exchange contract,
      req_direction = direction,
      req_offset = offset,
      req_type = LIMIT,
      req_price = round_to en price (contract_pricetick contract),
      req_volume = round_to en volume (contract_min_volume contract),
      req_reference = APP_NAME @ ''_'' @ strategy_name s\<rparr>"

definition engine_send_order ::
  "env \<Rightarrow> ref \<Rightarrow> string \<Rightarrow> Direction \<Rightarrow> Offset \<Rightarrow> real \<Rightarrow> real \<Rightarrow> bool \<Rightarrow> bool \<Rightarrow> StrategyEngine
    \<Rightarrow> py_ids \<times> StrategyEngine" where
  "engine_send_order en r vt_symbol direction offset price volume lock net e =
     (case get_contract en vt_symbol of
        None \<Rightarrow>
          (PyStr [], write_log (''Order failed, contract not found: '' @ vt_symbol) (Some r) e)
      | Some contract \<Rightarrow>
          let req_list = convert_order_request en
                (original_req en contract (objs e r) direction offset price volume)
                (contract_gateway_name contract) lock net;
              (vt_orderids, e1) = send_reqs en r (contract_gateway_name contract) req_list [] e
          in (PyList vt_orderids, e1))"

text \<open>\<^verbatim>\<open>set.add\<close> on the list that stands for \<^verbatim>\<open>active_orderids\<close>.\<close>

definition set_add :: "string \<Rightarrow> string list \<Rightarrow> string list" where
  "set_add x xs = (if x \<in> set xs then xs else xs @ [x])"

text \<open>\<^verbatim>\<open>StrategyTemplate.send_order\<close>: nothing is sent unless the strategy is trading.\<close>

definition template_send_order ::
  "env \<Rightarrow> ref \<Rightarrow> string \<Rightarrow> Direction \<Rightarrow> Offset \<Rightarrow> real \<Rightarrow> real \<Rightarrow> bool \<Rightarrow> bool \<Rightarrow> StrategyEngine
    \<Rightarrow> py_ids \<times> StrategyEngine" where
  "template_send_order en r vt_symbol direction offset price volume lock net e =
     (if trading (objs e r) then
        let (vt_orderids, e1) =
              engine_send_order en r vt_symbol direction offset price volume lock net e;
            e2 = foldl (\<lambda>e' vt_orderid.
                     on_obj r (\<lambda>s. s\<lparr>active_orderids := set_add vt_orderid (active_orderids s)\<rparr>) e')
                   e1 (iter_ids vt_orderids)
        in (vt_orderids, e2)
      else (PyList [], e))"

definition buy ::
  "env \<Rightarrow> ref \<Rightarrow> string \<Rightarrow> real \<Rightarrow> real \<Rightarrow> bool \<Rightarrow> bool \<Rightarrow> StrategyEngine \<Rightarrow> py_ids \<times> StrategyEngine" where
  "buy en r vt_symbol price volume lock net =
     template_send_order en r vt_symbol LONG OPEN price volume lock net"

definition sell ::
  "env \<Rightarrow> ref \<Rightarrow> string \<Rightarrow> real \<Rightarrow> real \<Rightarrow> bool \<Rightarrow> bool \<Rightarrow> StrategyEngine \<Rightarrow> py_ids \<times> StrategyEngine" where
  "sell en r vt_symbol price volume lock net =
     template_send_order en r vt_symbol SHORT CLOSE price volume lock net"

definition short ::
  "env \<Rightarrow> ref \<Rightarrow> string \<Rightarrow> real \<Rightarrow> real \<Rightarrow> bool \<Rightarrow> bool \<Rightarrow> StrategyEngine \<Rightarrow> py_ids \<times> StrategyEngine" where
  "short en r vt_symbol price volume lock net =
     template_send_order en r vt_symbol SHORT OPEN price volume lock net"

definition cover ::
  "env \<Rightarrow> ref \<Rightarrow> string \<Rightarrow> real \<Rightarrow> real \<Rightarrow> bool \<Rightarrow> bool \<Rightarrow> StrategyEngine \<Rightarrow> py_ids \<times> StrategyEngine" where
  "cover en r vt_symbol price volume lock net =
     template_send_order en r vt_symbol LONG CLOSE price volume lock net"

text \<open>\<^verbatim>\<open>StrategyEngine.cancel_order\<close>.\<close>

definition engine_cancel_order :: "env \<Rightarrow> ref \<Rightarrow> string \<Rightarrow> StrategyEngine \<Rightarrow> StrategyEngine" where
  "engine_cancel_order en r vt_orderid e =
     (case get_order en vt_orderid of
        None \<Rightarrow>
          write_log (''Cancellation failed, commission not found '' @ vt_orderid) (Some r) e
      | Some order \<Rightarrow>
          e\<lparr>calls := calls e @
               [MainCancelOrder
                  \<lparr>cancel_orderid = order_orderid order,
                   cancel_symbol = order_symbol order,
                   cancel_exchange = order_exchange order\<rparr>
                  (order_gateway_name order)]\<rparr>)"

text \<open>\<^verbatim>\<open>StrategyTemplate.cancel_order\<close> and \<^verbatim>\<open>cancel_all\<close>.\<close>

definition template_cancel_order :: "env \<Rightarrow> ref \<Rightarrow> string \<Rightarrow> StrategyEngine \<Rightarrow> StrategyEngine" where
  "template_cancel_order en r vt_orderid e =
     (if trading (objs e r) then engine_cancel_order en r vt_orderid e else e)"

definition cancel_all :: "env \<Rightarrow> ref \<Rightarrow> StrategyEngine \<Rightarrow> StrategyEngine" where
  "cancel_all en r e =
     foldl (\<lambda>e' vt_orderid. template_cancel_order en r vt_orderid e') e
       (active_orderids (objs e r))"

subsection \<open>Rebalancing towards the target\<close>

text \<open>
  \<^verbatim>\<open>get_target\<close>: \<^verbatim>\<open>self.target_data[vt_symbol]\<close> on a defaultdict, which stores the
  default 0 under a key it does not have.
\<close>

definition get_target :: "StrategyTemplate \<Rightarrow> string \<Rightarrow> int \<times> StrategyTemplate" where
  "get_target s vt_symbol =
     (case map_of (target_data s) vt_symbol of
        Some t \<Rightarrow> (t, s)
      | None \<Rightarrow> (0, s\<lparr>target_data := target_data s @ [(vt_symbol, 0)]\<rparr>))"

text \<open>The body of the loop of \<^verbatim>\<open>rebalance_portfolio\<close>, for one item of \<^verbatim>\<open>bars\<close>.\<close>

definition rebalance_step ::
  "env \<Rightarrow> ref \<Rightarrow> string \<times> BarData \<Rightarrow> StrategyEngine \<Rightarrow> StrategyEngine" where
  "rebalance_step en r item e =
     (let vt_symbol = fst item; bar = snd item;
          (target, s1) = get_target (objs e r) vt_symbol;
          e1 = on_obj r (\<lambda>_. s1) e;
          pos = get_pos (objs e1 r) vt_symbol;
          diff = target - pos
      in if diff > 0 then
           let order_price = calculate_price en r vt_symbol LONG (bar_close_price bar);
               (cover_volume, buy_volume) =
                  (if pos < 0 then (min diff (abs pos), diff - min diff (abs pos)) else (0, diff));
               e2 = (if cover_volume \<noteq> 0
                     then snd (cover en r vt_symbol order_price (of_int cover_volume) False False e1)
                     else e1);
               e3 = (if buy_volume \<noteq> 0
                     then snd (buy en r vt_symbol order_price (of_int buy_volume) False False e2)
                     else e2)
           in e3
         else if diff < 0 then
           let order_price = calculate_price en r vt_symbol SHORT (bar_close_price bar);
               (sell_volume, short_volume) =
                  (if pos > 0 then (min (abs diff) pos, abs diff - min (abs diff) pos) else (0, abs diff));
               e2 = (if sell_volume \<noteq> 0
                     then snd (sell en r vt_symbol order_price (of_int sell_volume) False False e1)
                     else e1);
               e3 = (if short_volume \<noteq> 0
                     then snd (short en r vt_symbol order_price (of_int short_volume) False False e2)
                     else e2)
           in e3
         else e1)"

text \<open>\<^verbatim>\<open>rebalance_portfolio\<close>: cancel everything, then one step per item of \<^verbatim>\<open>bars\<close>.\<close>

definition rebalance_portfolio ::
  "env \<Rightarrow> ref \<Rightarrow> (string \<times> BarData) list \<Rightarrow> StrategyEngine \<Rightarrow> StrategyEngine" where
  "rebalance_portfolio en r bars e =
     foldl (\<lambda>e' item. rebalance_step en r item e') (cancel_all en r e) bars"

section \<open>Variables, persistence and notification\<close>

text \<open>
  \<^verbatim>\<open>getattr(strategy, name)\<close> and \<^verbatim>\<open>setattr(strategy, name, value)\<close> for the names a
  strategy lists in \<^verbatim>\<open>parameters\<close> and \<^verbatim>\<open>variables\<close>: the four default variables are
  fields of the template, every other name is an attribute of the concrete class, and a
  name the object does not have is an \<^verbatim>\<open>AttributeError\<close>. Reading \<^verbatim>\<open>pos_data\<close> or
  \<^verbatim>\<open>target_data\<close> gives the dictionary object itself, that is, a reference to it. The
  two flags are only ever read for their truth value, which is what the model stores.
\<close>

definition ledger :: "StrategyTemplate \<Rightarrow> ledger_name \<Rightarrow> (string \<times> int) list" where
  "ledger s k = (case k of PosData \<Rightarrow> pos_data s | TargetData \<Rightarrow> target_data s)"

definition set_ledger :: "ledger_name \<Rightarrow> (string \<times> int) list \<Rightarrow> StrategyTemplate \<Rightarrow> StrategyTemplate" where
  "set_ledger k d s = (case k of PosData \<Rightarrow> s\<lparr>pos_data := d\<rparr> | TargetData \<Rightarrow> s\<lparr>target_data := d\<rparr>)"

text \<open>What a value holds at the moment it is looked at: a reference is followed.\<close>

fun deref :: "StrategyEngine \<Rightarrow> var_value \<Rightarrow> var_value" where
  "deref e (Prim p) = Prim p"
| "deref e (DictValue d) = DictValue d"
| "deref e (LedgerRef r k) = DictValue (ledger (objs e r) k)"

fun truthy_prim :: "pyval \<Rightarrow> bool" where
  "truthy_prim PNone = False"
| "truthy_prim (PBool b) = b"
| "truthy_prim (PInt i) = (i \<noteq> 0)"
| "truthy_prim (PFloat x) = (x \<noteq> 0)"
| "truthy_prim (PStr s) = (s \<noteq> [])"

fun truthy :: "StrategyEngine \<Rightarrow> var_value \<Rightarrow> bool" where
  "truthy e (Prim p) = truthy_prim p"
| "truthy e (DictValue d) = (d \<noteq> [])"
| "truthy e (LedgerRef r k) = (ledger (objs e r) k \<noteq> [])"

definition getattr_strategy :: "StrategyEngine \<Rightarrow> ref \<Rightarrow> string \<Rightarrow> py_error + var_value" where
  "getattr_strategy e r name =
     (if name = ''inited'' then Inr (Prim (PBool (inited (objs e r))))
      else if name = ''trading'' then Inr (Prim (PBool (trading (objs e r))))
      else if name = ''pos_data'' then Inr (LedgerRef r PosData)
      else if name = ''target_data'' then Inr (LedgerRef r TargetData)
      else case map_of (attrs (objs e r)) name of
             Some v \<Rightarrow> Inr v
           | None \<Rightarrow> Inl (AttributeError name))"

definition setattr_strategy :: "ref \<Rightarrow> string \<Rightarrow> var_value \<Rightarrow> StrategyEngine \<Rightarrow> StrategyEngine" where
  "setattr_strategy r name v e =
     (if name = ''inited'' then on_obj r (\<lambda>s. s\<lparr>inited := truthy e v\<rparr>) e
      else if name = ''trading'' then on_obj r (\<lambda>s. s\<lparr>trading := truthy e v\<rparr>) e
      else on_obj r (\<lambda>s. s\<lparr>attrs := AList.update name v (attrs s)\<rparr>) e)"

text \<open>
  The loops of \<^verbatim>\<open>get_parameters\<close> and \<^verbatim>\<open>get_variables\<close>: one dictionary entry per name.
\<close>

fun get_attrs ::
  "StrategyEngine \<Rightarrow> ref \<Rightarrow> string list \<Rightarrow> (string \<times> var_value) list
    \<Rightarrow> py_error + (string \<times> var_value) list" where
  "get_attrs e r [] acc = Inr acc"
| "get_attrs e r (name # names) acc =
     (case getattr_strategy e r name of
        Inl err \<Rightarrow> Inl err
      | Inr v \<Rightarrow> get_attrs e r names (AList.update name v acc))"

definition get_parameters :: "StrategyEngine \<Rightarrow> ref \<Rightarrow> py_error + (string \<times> var_value) list" where
  "get_parameters e r = get_attrs e r (parameters (objs e r)) []"

definition get_variables :: "StrategyEngine \<Rightarrow> ref \<Rightarrow> py_error + (string \<times> var_value) list" where
  "get_variables e r = get_attrs e r (variables (objs e r)) []"

definition get_data :: "StrategyEngine \<Rightarrow> ref \<Rightarrow> py_error + StrategyInfo" where
  "get_data e r =
     (case get_parameters e r of
        Inl err \<Rightarrow> Inl err
      | Inr ps \<Rightarrow>
          (case get_variables e r of
             Inl err \<Rightarrow> Inl err
           | Inr vs \<Rightarrow>
               Inr \<lparr>info_strategy_name = strategy_name (objs e r),
                    info_vt_symbols = vt_symbols (objs e r),
                    info_class_name = class_name (objs e r),
                    info_author = author (objs e r),
                    info_parameters = ps,
                    info_variables = vs\<rparr>))"

text \<open>
  What a dictionary of values holds at the moment of a call that hands it to a
  collaborator.
\<close>

definition contents :: "StrategyEngine \<Rightarrow> (string \<times> var_value) list \<Rightarrow> (string \<times> var_value) list" where
  "contents e d = map (\<lambda>kv. (fst kv, deref e (snd kv))) d"

text \<open>
  \<^verbatim>\<open>put_strategy_event\<close>; the trace keeps what the dictionary of \<^verbatim>\<open>get_data\<close> holds when
  the event is put.
\<close>

definition put_strategy_event :: "ref \<Rightarrow> StrategyEngine \<Rightarrow> py_error + StrategyEngine" where
  "put_strategy_event r e =
     (case get_data e r of
        Inl err \<Rightarrow> Inl err
      | Inr d \<Rightarrow>
          Inr (e\<lparr>calls := calls e @
                 [EventPut (PortfolioStrategy
                    (d\<lparr>info_parameters := contents e (info_parameters d),
                       info_variables := contents e (info_variables d)\<rparr>))]\<rparr>))"

text \<open>\<^verbatim>\<open>dict.pop(key)\<close> without a default: a missing key is a \<^verbatim>\<open>KeyError\<close>.\<close>

definition dict_pop :: "string \<Rightarrow> (string \<times> 'v) list \<Rightarrow> py_error + (string \<times> 'v) list" where
  "dict_pop k d = (if k \<in> fst ` set d then Inr (AList.delete k d) else Inl (KeyError k))"

definition data_filename :: string where
  "data_filename = ''portfolio_strategy_data.json''"

text \<open>
  \<^verbatim>\<open>sync_strategy_data\<close>: the dictionary of \<^verbatim>\<open>get_variables\<close> without the two flags is
  stored under the strategy's name, its \<^verbatim>\<open>pos_data\<close> and \<^verbatim>\<open>target_data\<close> entries being the
  strategy's own dictionary objects, and the whole table is written once, with what it
  holds at that moment.
\<close>

definition sync_strategy_data :: "ref \<Rightarrow> StrategyEngine \<Rightarrow> py_error + StrategyEngine" where
  "sync_strategy_data r e =
     (case get_variables e r of
        Inl err \<Rightarrow> Inl err
      | Inr data \<Rightarrow>
          (case dict_pop ''inited'' data of
             Inl err \<Rightarrow> Inl err
           | Inr data1 \<Rightarrow>
               (case dict_pop ''trading'' data1 of
                  Inl err \<Rightarrow> Inl err
                | Inr data2 \<Rightarrow>
                    let sd = AList.update (strategy_name (objs e r)) data2 (strategy_data e)
                    in Inr (e\<lparr>strategy_data := sd,
                              calls := calls e @
                                [SaveJson data_filename
                                   (map (\<lambda>nd. (fst nd, contents e (snd nd))) sd)]\<rparr>))))"

section \<open>The life cycle (engine.py)\<close>

text \<open>
  \<^verbatim>\<open>stop_strategy\<close>: the statements of the source in their order. An unknown name is the
  \<^verbatim>\<open>KeyError\<close> of \<^verbatim>\<open>self.strategies[strategy_name]\<close>.
\<close>

definition stop_strategy :: "env \<Rightarrow> string \<Rightarrow> StrategyEngine \<Rightarrow> py_error + StrategyEngine" where
  "stop_strategy en name e =
     (case strategies e name of
        None \<Rightarrow> Inl (KeyError name)
      | Some r \<Rightarrow>
          if \<not> trading (objs e r) then Inr e
          else
            let e1 = call_strategy_func r (on_stop en r) e;
                e2 = on_obj r (\<lambda>s. s\<lparr>trading := False\<rparr>) e1;
                e3 = cancel_all en r e2
            in (case sync_strategy_data r e3 of
                  Inl err \<Rightarrow> Inl err
                | Inr e4 \<Rightarrow> put_strategy_event r e4))"

text \<open>
  \<^verbatim>\<open>strategy_data.update(value)\<close> on the position or target dictionary of the strategy at
  \<open>r\<close>. A dictionary is merged entry by entry; a number, a boolean or \<^verbatim>\<open>None\<close> is not
  iterable (\<^verbatim>\<open>TypeError\<close>); an empty string has no elements, any other string has
  elements that are not pairs (\<^verbatim>\<open>ValueError\<close>).
\<close>

fun merge_ledger :: "(string \<times> int) list \<Rightarrow> (string \<times> int) list \<Rightarrow> (string \<times> int) list" where
  "merge_ledger [] d = d"
| "merge_ledger (kv # kvs) d = merge_ledger kvs (AList.update (fst kv) (snd kv) d)"

fun dict_update :: "ref \<Rightarrow> ledger_name \<Rightarrow> var_value \<Rightarrow> StrategyEngine \<Rightarrow> py_error + StrategyEngine" where
  "dict_update r k (DictValue kvs) e =
     Inr (on_obj r (\<lambda>s. set_ledger k (merge_ledger kvs (ledger s k)) s) e)"
| "dict_update r k (LedgerRef r' k') e =
     Inr (on_obj r (\<lambda>s. set_ledger k (merge_ledger (ledger (objs e r') k') (ledger s k)) s) e)"
| "dict_update r k (Prim (PStr str)) e =
     (if str = [] then Inr e else Inl (ValueError ''dictionary update sequence element''))"
| "dict_update r k (Prim p) e = Inl (TypeError ''object is not iterable'')"

text \<open>
  The restore of the persisted variables in \<^verbatim>\<open>_init_strategy\<close>: one step per name of
  \<^verbatim>\<open>strategy.variables\<close>. A name without a value, or with the value \<^verbatim>\<open>None\<close>, is
  skipped; the position and target dictionaries are merged; every other variable is
  assigned.
\<close>

definition restore_variable ::
  "ref \<Rightarrow> (string \<times> var_value) list \<Rightarrow> string \<Rightarrow> StrategyEngine \<Rightarrow> py_error + StrategyEngine" where
  "restore_variable r data name e =
     (case map_of data name of
        None \<Rightarrow> Inr e
      | Some v \<Rightarrow>
          if v = Prim PNone then Inr e
          else if name = ''pos_data'' then dict_update r PosData v e
          else if name = ''target_data'' then dict_update r TargetData v e
          else Inr (setattr_strategy r name v e))"

fun restore_variables ::
  "ref \<Rightarrow> (string \<times> var_value) list \<Rightarrow> string list \<Rightarrow> StrategyEngine \<Rightarrow> py_error + StrategyEngine" where
  "restore_variables r data [] e = Inr e"
| "restore_variables r data (name # names) e =
     (case restore_variable r data name e of
        Inl err \<Rightarrow> Inl err
      | Inr e1 \<Rightarrow> restore_variables r data names e1)"

text \<open>The subscription loop of \<^verbatim>\<open>_init_strategy\<close>.\<close>

fun subscribe_all :: "env \<Rightarrow> ref \<Rightarrow> string list \<Rightarrow> StrategyEngine \<Rightarrow> StrategyEngine" where
  "subscribe_all en r [] e = e"
| "subscribe_all en r (vt_symbol # rest) e =
     subscribe_all en r rest
       (case get_contract en vt_symbol of
          Some contract \<Rightarrow>
            e\<lparr>calls := calls e @
                 [MainSubscribe
                    \<lparr>sub_symbol = contract_symbol contract,
                     sub_exchange = contract_exchange contract\<rparr>
                    (contract_gateway_name contract)]\<rparr>
        | None \<Rightarrow>
            write_log (''Quote subscription failed, contract '' @ vt_symbol @ '' not found'')
              (Some r) e)"

text \<open>
  \<^verbatim>\<open>_init_strategy\<close>, the function that the initialisation worker runs: the statements
  of the source in their order.
\<close>

definition init_strategy_impl :: "env \<Rightarrow> string \<Rightarrow> StrategyEngine \<Rightarrow> py_error + StrategyEngine" where
  "init_strategy_impl en name e =
     (case strategies e name of
        None \<Rightarrow> Inl (KeyError name)
      | Some r \<Rightarrow>
          if inited (objs e r) then
            Inr (write_log
                   (name @ '' has completed initialization, repeat operations are prohibited'')
                   None e)
          else
            let e1 = write_log (name @ '' start performing initialization'') None e;
                e2 = call_strategy_func r (on_init en r) e1;
                data = (case map_of (strategy_data e2) name of Some d \<Rightarrow> d | None \<Rightarrow> [])
            in (case (if data \<noteq> []
                      then restore_variables r data (variables (objs e2 r)) e2
                      else Inr e2) of
                  Inl err \<Rightarrow> Inl err
                | Inr e3 \<Rightarrow>
                    let e4 = subscribe_all en r (vt_symbols (objs e3 r)) e3;
                        e5 = on_obj r (\<lambda>s. s\<lparr>inited := True\<rparr>) e4
                    in (case put_strategy_event r e5 of
                          Inl err \<Rightarrow> Inl err
                        | Inr e6 \<Rightarrow>
                            Inr (write_log (name @ '' initialization complete'') None e6))))"

section \<open>Historical bars (engine.py)\<close>

text \<open>
  \<^verbatim>\<open>load_bar\<close>: one contract's history. Times are seconds; \<^verbatim>\<open>timedelta(days)\<close> is
  \<open>days * 86400\<close>. The contract's gateway is asked when the contract is known and offers
  history, the data feed otherwise; the database is asked when that answer is empty.
  \<^verbatim>\<open>extract_vt_symbol\<close> raises on a name it cannot split.
\<close>

definition load_bar ::
  "env \<Rightarrow> string \<Rightarrow> int \<Rightarrow> Interval \<Rightarrow> StrategyEngine \<Rightarrow> py_error + (BarData list \<times> StrategyEngine)" where
  "load_bar en vt_symbol days interval e =
     (case extract_vt_symbol en vt_symbol of
        None \<Rightarrow> Inl (ValueError vt_symbol)
      | Some (symbol, exchange) \<Rightarrow>
          let end_dt = now en;
              start = end_dt - days * 86400;
              contract = get_contract en vt_symbol;
              req = \<lparr>hist_symbol = symbol, hist_exchange = exchange, hist_interval = interval,
                     hist_start = start, hist_end = end_dt\<rparr>;
              (data, e1) =
                (case contract of
                   Some c \<Rightarrow>
                     if contract_history_data c
                     then (query_history en req (contract_gateway_name c),
                           e\<lparr>calls := calls e @ [MainQueryHistory req (contract_gateway_name c)]\<rparr>)
                     else (query_bar_history en req,
                           e\<lparr>calls := calls e @ [DatafeedQueryBarHistory req]\<rparr>)
                 | None \<Rightarrow>
                     (query_bar_history en req,
                      e\<lparr>calls := calls e @ [DatafeedQueryBarHistory req]\<rparr>))
          in if data = []
             then Inr (load_bar_data en symbol exchange interval start end_dt,
                       e1\<lparr>calls := calls e1 @
                              [DatabaseLoadBarData symbol exchange interval start end_dt]\<rparr>)
             else Inr (data, e1))"

text \<open>
  The first loop of \<^verbatim>\<open>load_bars\<close>: the bars of every contract are stored under
  (time, contract), and the times are collected.
\<close>

type_synonym history = "(datetime \<times> string) \<rightharpoonup> BarData"

fun store_bars :: "string \<Rightarrow> BarData list \<Rightarrow> datetime list \<times> history \<Rightarrow> datetime list \<times> history" where
  "store_bars vt_symbol [] acc = acc"
| "store_bars vt_symbol (bar # data) acc =
     store_bars vt_symbol data
       (bar_datetime bar # fst acc, (snd acc)((bar_datetime bar, vt_symbol) \<mapsto> bar))"

fun load_history ::
  "env \<Rightarrow> string list \<Rightarrow> int \<Rightarrow> Interval \<Rightarrow> datetime list \<times> history \<Rightarrow> StrategyEngine
    \<Rightarrow> py_error + ((datetime list \<times> history) \<times> StrategyEngine)" where
  "load_history en [] days interval acc e = Inr (acc, e)"
| "load_history en (vt_symbol # rest) days interval acc e =
     (case load_bar en vt_symbol days interval e of
        Inl err \<Rightarrow> Inl err
      | Inr (data, e1) \<Rightarrow> load_history en rest days interval (store_bars vt_symbol data acc) e1)"

text \<open>
  The bar that fills a gap: the old bar's contract and gateway, the time of the gap, and
  the old close as every price; the other fields of \<^verbatim>\<open>BarData\<close> keep their defaults.
\<close>

definition flat_bar :: "BarData \<Rightarrow> datetime \<Rightarrow> BarData" where
  "flat_bar old_bar dt =
     \<lparr>bar_symbol = bar_symbol old_bar,
      bar_exchange = bar_exchange old_bar,
      bar_datetime = dt,
      bar_interval = None,
      bar_volume = 0,
      bar_turnover = 0,
      bar_open_interest = 0,
      bar_open_price = bar_close_price old_bar,
      bar_high_price = bar_close_price old_bar,
      bar_low_price = bar_close_price old_bar,
      bar_close_price = bar_close_price old_bar,
      bar_gateway_name = bar_gateway_name old_bar\<rparr>"

text \<open>The inner loop of \<^verbatim>\<open>load_bars\<close> over the contracts, at one time \<open>dt\<close>.\<close>

fun fill_bars :: "history \<Rightarrow> datetime \<Rightarrow> string list \<Rightarrow> (string \<times> BarData) list \<Rightarrow> (string \<times> BarData) list" where
  "fill_bars h dt [] bars = bars"
| "fill_bars h dt (vt_symbol # rest) bars =
     (case h (dt, vt_symbol) of
        Some bar \<Rightarrow> fill_bars h dt rest (AList.update vt_symbol bar bars)
      | None \<Rightarrow>
          (case map_of bars vt_symbol of
             Some old_bar \<Rightarrow> fill_bars h dt rest (AList.update vt_symbol (flat_bar old_bar dt) bars)
           | None \<Rightarrow> fill_bars h dt rest bars))"

text \<open>
  The call \<^verbatim>\<open>call_strategy_func(strategy, strategy.on_bars, bars)\<close>: with an empty
  dictionary the source calls \<^verbatim>\<open>on_bars()\<close> without its argument, which raises. The hook
  is given the dictionary as a value: a hook of the model reads \<^verbatim>\<open>bars\<close> and does not
  change it.
\<close>

definition call_on_bars :: "env \<Rightarrow> ref \<Rightarrow> (string \<times> BarData) list \<Rightarrow> StrategyEngine \<Rightarrow> StrategyEngine" where
  "call_on_bars en r bars e =
     call_strategy_func r
       (if bars \<noteq> [] then on_bars en r bars
        else (\<lambda>e'. (Raised ''TypeError: on_bars() missing 1 required positional argument'', e')))
       e"

text \<open>The outer loop of \<^verbatim>\<open>load_bars\<close> over the sorted times.\<close>

fun replay_bars ::
  "env \<Rightarrow> ref \<Rightarrow> history \<Rightarrow> string list \<Rightarrow> datetime list \<Rightarrow> (string \<times> BarData) list
    \<Rightarrow> StrategyEngine \<Rightarrow> StrategyEngine" where
  "replay_bars en r h syms [] bars e = e"
| "replay_bars en r h syms (dt # dts) bars e =
     (let bars1 = fill_bars h dt syms bars
      in replay_bars en r h syms dts bars1 (call_on_bars en r bars1 e))"

definition load_bars :: "env \<Rightarrow> ref \<Rightarrow> int \<Rightarrow> Interval \<Rightarrow> StrategyEngine \<Rightarrow> py_error + StrategyEngine" where
  "load_bars en r days interval e =
     (let syms = vt_symbols (objs e r)
      in case load_history en syms days interval ([], Map.empty) e of
           Inl err \<Rightarrow> Inl err
         | Inr ((dts, h), e1) \<Rightarrow>
             Inr (replay_bars en r h syms (sort (remdups dts)) [] e1))"

text \<open>
  The dictionaries that the callback receives, one per time: the successive values of
  \<^verbatim>\<open>bars\<close>.
\<close>

fun bars_sequence :: "history \<Rightarrow> string list \<Rightarrow> datetime list \<Rightarrow> (string \<times> BarData) list \<Rightarrow> (string \<times> BarData) list list" where
  "bars_sequence h syms [] bars = []"
| "bars_sequence h syms (dt # dts) bars =
     (let bars1 = fill_bars h dt syms bars in bars1 # bars_sequence h syms dts bars1)"

section \<open>The specification's vocabulary\<close>

text \<open>
  A leg of a rebalancing pass, in the words of the specification: a direction, an
  offset and a volume. For a positive difference the closing leg has the volume
  \<open>min diff (max 0 (- position))\<close> and the opening leg the rest; for a negative
  difference the closing leg has \<open>min |diff| (max 0 position)\<close>; a leg of volume zero
  is not submitted.
\<close>

datatype leg = Leg Direction Offset int

fun leg_volume :: "leg \<Rightarrow> int" where
  "leg_volume (Leg d off v) = v"

fun leg_signed :: "leg \<Rightarrow> int" where
  "leg_signed (Leg d off v) = (if d = LONG then v else - v)"

definition spec_legs :: "int \<Rightarrow> int \<Rightarrow> leg list" where
  "spec_legs target position =
     (let diff = target - position
      in if diff > 0 then
           (let closing = min diff (max 0 (- position)); remaining = diff - closing
            in (if closing \<noteq> 0 then [Leg LONG CLOSE closing] else []) @
               (if remaining \<noteq> 0 then [Leg LONG OPEN remaining] else []))
         else if diff < 0 then
           (let closing = min (abs diff) (max 0 position); remaining = abs diff - closing
            in (if closing \<noteq> 0 then [Leg SHORT CLOSE closing] else []) @
               (if remaining \<noteq> 0 then [Leg SHORT OPEN remaining] else []))
         else [])"

text \<open>
  Submitting one leg: the call of \<^verbatim>\<open>self.send_order\<close> that \<^verbatim>\<open>buy\<close>, \<^verbatim>\<open>sell\<close>,
  \<^verbatim>\<open>short\<close> and \<^verbatim>\<open>cover\<close> make, with the default \<^verbatim>\<open>lock\<close> and \<^verbatim>\<open>net\<close>.
\<close>

fun submit_leg :: "env \<Rightarrow> ref \<Rightarrow> string \<Rightarrow> real \<Rightarrow> StrategyEngine \<Rightarrow> leg \<Rightarrow> StrategyEngine" where
  "submit_leg en r vt_symbol price e (Leg d off v) =
     snd (template_send_order en r vt_symbol d off price (of_int v) False False e)"

text \<open>The target that \<^verbatim>\<open>get_target\<close> reads, and the entry it leaves behind.\<close>

definition target_of :: "StrategyTemplate \<Rightarrow> string \<Rightarrow> int" where
  "target_of s vt_symbol = fst (get_target s vt_symbol)"

definition touch_target :: "ref \<Rightarrow> string \<Rightarrow> StrategyEngine \<Rightarrow> StrategyEngine" where
  "touch_target r vt_symbol e = on_obj r (\<lambda>s. snd (get_target s vt_symbol)) e"

text \<open>The calls that place an order, cancel one, or write the persisted data.\<close>

fun is_send_order :: "ext_call \<Rightarrow> bool" where
  "is_send_order (MainSendOrder req gw) = True"
| "is_send_order c = False"

fun is_cancel_order :: "ext_call \<Rightarrow> bool" where
  "is_cancel_order (MainCancelOrder req gw) = True"
| "is_cancel_order c = False"

fun is_save_json :: "ext_call \<Rightarrow> bool" where
  "is_save_json (SaveJson f d) = True"
| "is_save_json c = False"

text \<open>
  The gateway of the direct feed for a contract, when the contract is known and offers
  history: the condition \<^verbatim>\<open>contract and contract.history_data\<close> of \<^verbatim>\<open>load_bar\<close>.
\<close>

definition direct_feed :: "env \<Rightarrow> string \<Rightarrow> string option" where
  "direct_feed en vt_symbol =
     (case get_contract en vt_symbol of
        Some c \<Rightarrow> if contract_history_data c then Some (contract_gateway_name c) else None
      | None \<Rightarrow> None)"

text \<open>
  The historical sources in the order of priority the specification gives them, the
  first answer that is not empty winning.
\<close>

fun first_non_empty :: "'a list list \<Rightarrow> 'a list" where
  "first_non_empty [] = []"
| "first_non_empty (xs # rest) = (if xs \<noteq> [] then xs else first_non_empty rest)"

section \<open>Concrete inputs\<close>

definition demo_strategy :: StrategyTemplate where
  "demo_strategy =
     \<lparr>strategy_name = ''s1'', vt_symbols = [''A.X''], inited = False, trading = False,
      pos_data = [], target_data = [], orders = [], active_orderids = [],
      variables = [''inited'', ''trading'', ''pos_data'', ''target_data''],
      parameters = [], class_name = ''Demo'', author = [], attrs = []\<rparr>"

definition demo_engine :: StrategyEngine where
  "demo_engine =
     \<lparr>strategy_data = [], strategies = [''s1'' \<mapsto> 0],
      symbol_strategy_map = (\<lambda>k. if k = ''A.X'' then [0] else []),
      orderid_strategy_map = [''o1'' \<mapsto> 0], vt_tradeids = {},
      objs = (\<lambda>r. demo_strategy), calls = []\<rparr>"

definition demo_contract :: ContractData where
  "demo_contract =
     \<lparr>contract_symbol = ''A'', contract_exchange = ''X'', contract_size = 1,
      contract_pricetick = 1, contract_min_volume = 1, contract_history_data = True,
      contract_gateway_name = ''GW''\<rparr>"

definition demo_order :: OrderData where
  "demo_order =
     \<lparr>order_vt_orderid = ''o1'', order_orderid = ''1'', order_symbol = ''A'',
      order_exchange = ''X'', order_gateway_name = ''GW'', order_active = True\<rparr>"

definition demo_bar :: "datetime \<Rightarrow> real \<Rightarrow> BarData" where
  "demo_bar dt c =
     \<lparr>bar_symbol = ''A'', bar_exchange = ''X'', bar_datetime = dt, bar_interval = Some MINUTE,
      bar_volume = 7, bar_turnover = 0, bar_open_interest = 0, bar_open_price = c,
      bar_high_price = c + 1, bar_low_price = c - 1, bar_close_price = c,
      bar_gateway_name = ''GW''\<rparr>"

text \<open>
  Collaborators for the concrete inputs: one contract \<open>A.X\<close> with a gateway that offers
  history and answers an empty sequence, a data feed with one bar, a database with
  another; order ids are numbered by the calls made so far; the init hook raises.
\<close>

definition demo_env :: env where
  "demo_env =
     \<lparr>get_contract = (\<lambda>k. if k = ''A.X'' then Some demo_contract else None),
      get_order = (\<lambda>k. if k = ''o1'' then Some demo_order else None),
      convert_order_request = (\<lambda>req gw lock net. [req]),
      main_send_order = (\<lambda>cs req gw. CHR ''n'' # replicate (length cs) (CHR ''i'')),
      query_history = (\<lambda>req gw. []),
      query_bar_history = (\<lambda>req. [demo_bar 60 10]),
      load_bar_data = (\<lambda>symbol exchange interval start end_dt. [demo_bar 120 20]),
      round_to = (\<lambda>v t. v),
      extract_vt_symbol =
        (\<lambda>k. if k = ''A.X'' then Some (''A'', ''X'')
             else if k = ''B.Y'' then Some (''B'', ''Y'') else None),
      now = 86400,
      on_init = (\<lambda>r e. (Raised ''boom'', e)),
      on_stop = (\<lambda>r e. (Returned, e)),
      on_bars = (\<lambda>r bars e. (Returned, e)),
      calculate_price = (\<lambda>r k d reference. reference)\<rparr>"

definition demo_trade :: "string \<Rightarrow> Direction \<Rightarrow> int \<Rightarrow> TradeData" where
  "demo_trade tid d v =
     \<lparr>trade_vt_tradeid = tid, trade_vt_orderid = ''o1'', trade_vt_symbol = ''A.X'',
      trade_direction = d, trade_volume = v\<rparr>"

definition demo_inited_engine :: StrategyEngine where
  "demo_inited_engine = demo_engine\<lparr>objs := (\<lambda>r. demo_strategy\<lparr>inited := True\<rparr>)\<rparr>"

definition demo_trading_engine :: StrategyEngine where
  "demo_trading_engine =
     demo_engine\<lparr>objs := (\<lambda>r. demo_strategy\<lparr>inited := True, trading := True,
                                            active_orderids := [''o1'']\<rparr>)\<rparr>"

text \<open>
  The price of the legs of one item of \<^verbatim>\<open>bars\<close>: \<^verbatim>\<open>calculate_price\<close> with the direction
  of the difference and the close of the bar.
\<close>

definition leg_price :: "env \<Rightarrow> ref \<Rightarrow> StrategyEngine \<Rightarrow> string \<times> BarData \<Rightarrow> real" where
  "leg_price en r e item =
     calculate_price en r (fst item)
       (if target_of (objs e r) (fst item) - get_pos (objs e r) (fst item) > 0 then LONG else SHORT)
       (bar_close_price (snd item))"

text \<open>A trading strategy with one position and one target, and the requests it leads to.\<close>

definition demo_ledger_engine :: "int \<Rightarrow> int \<Rightarrow> StrategyEngine" where
  "demo_ledger_engine p t =
     demo_engine\<lparr>objs := (\<lambda>r. demo_strategy\<lparr>inited := True, trading := True,
                                            pos_data := [(''A.X'', p)],
                                            target_data := [(''A.X'', t)]\<rparr>)\<rparr>"

definition demo_req :: "Direction \<Rightarrow> Offset \<Rightarrow> real \<Rightarrow> OrderRequest" where
  "demo_req d off v =
     \<lparr>req_symbol = ''A'', req_exchange = ''X'', req_direction = d, req_offset = off,
      req_type = LIMIT, req_price = 10, req_volume = v,
      req_reference = ''PortfolioStrategy_s1''\<rparr>"

text \<open>
  The vocabulary of the forward fill. The bars of a contract are what \<^verbatim>\<open>load_bar\<close>
  answers for it; the state after loading is the state after the \<^verbatim>\<open>load_bar\<close> calls
  for the contracts in their order; the real bar of a contract at a time is the last
  bar with that time among its bars; the times are the times of all the bars of the
  strategy's contracts, in ascending order and without repetition.
\<close>

definition bar_data :: "env \<Rightarrow> int \<Rightarrow> Interval \<Rightarrow> StrategyEngine \<Rightarrow> string \<Rightarrow> BarData list" where
  "bar_data en days interval e vt_symbol =
     (case load_bar en vt_symbol days interval e of
        Inr res \<Rightarrow> fst res
      | Inl err \<Rightarrow> [])"

definition loaded_state :: "env \<Rightarrow> int \<Rightarrow> Interval \<Rightarrow> StrategyEngine \<Rightarrow> string list \<Rightarrow> StrategyEngine" where
  "loaded_state en days interval e syms =
     foldl (\<lambda>e' vt_symbol.
              case load_bar en vt_symbol days interval e' of
                Inr res \<Rightarrow> snd res
              | Inl err \<Rightarrow> e')
       e syms"

definition real_bar :: "env \<Rightarrow> int \<Rightarrow> Interval \<Rightarrow> StrategyEngine \<Rightarrow> string list \<Rightarrow> history" where
  "real_bar en days interval e syms k =
     (if snd k \<in> set syms
      then (case filter (\<lambda>b. bar_datetime b = fst k) (bar_data en days interval e (snd k)) of
              [] \<Rightarrow> None
            | b # bs \<Rightarrow> Some (last (b # bs)))
      else None)"

definition bar_times :: "env \<Rightarrow> int \<Rightarrow> Interval \<Rightarrow> StrategyEngine \<Rightarrow> string list \<Rightarrow> datetime list" where
  "bar_times en days interval e syms =
     sort (remdups (concat (map (\<lambda>s. map bar_datetime (bar_data en days interval e s)) syms)))"

text \<open>
  A strategy of two contracts, a data feed that answers one bar at time 60 for the
  contract it is asked for, and a bar callback that reports what it receives: for
  every contract of the dictionary the high and the close of its bar.
\<close>

definition demo_pair_engine :: StrategyEngine where
  "demo_pair_engine =
     demo_engine\<lparr>objs := (\<lambda>r. demo_strategy\<lparr>vt_symbols := [''A.X'', ''B.Y'']\<rparr>)\<rparr>"

definition report_bars :: "ref \<Rightarrow> (string \<times> BarData) list \<Rightarrow> StrategyEngine \<Rightarrow> outcome \<times> StrategyEngine" where
  "report_bars r bars e =
     (Returned,
      e\<lparr>calls := calls e @
           [EventPut (PortfolioStrategy
              \<lparr>info_strategy_name = strategy_name (objs e r),
               info_vt_symbols = map fst bars,
               info_class_name = class_name (objs e r),
               info_author = author (objs e r),
               info_parameters = map (\<lambda>kv. (fst kv, Prim (PFloat (bar_high_price (snd kv))))) bars,
               info_variables = map (\<lambda>kv. (fst kv, Prim (PFloat (bar_close_price (snd kv))))) bars\<rparr>)]\<rparr>)"

definition demo_feed_bar :: "HistoryRequest \<Rightarrow> BarData" where
  "demo_feed_bar req = (demo_bar 60 10)\<lparr>bar_symbol := hist_symbol req, bar_exchange := hist_exchange req\<rparr>"

definition demo_bars_env :: env where
  "demo_bars_env = demo_env\<lparr>query_bar_history := (\<lambda>req. [demo_feed_bar req]), on_bars := report_bars\<rparr>"

section \<open>Trade fills and positions\<close>

lemma get_pos_update_trade:
  "get_pos (update_trade t s) i =
     (if trade_vt_symbol t = i then get_pos s i + signed_volume t else get_pos s i)"
  by (simp add: update_trade_def get_pos_def signed_volume_def update_conv')

lemma process_trade_event_ids:
  "vt_tradeids (process_trade_event t e) = insert (trade_vt_tradeid t) (vt_tradeids e)"
  by (auto simp add: process_trade_event_def call_strategy_func_def on_obj_def Let_def
      split: option.splits)

lemma process_trade_event_map:
  "orderid_strategy_map (process_trade_event t e) = orderid_strategy_map e"
  by (simp add: process_trade_event_def call_strategy_func_def on_obj_def Let_def
      split: option.splits)

lemma process_trade_event_pos:
  "get_pos (objs (process_trade_event t e) r) i =
     (if trade_vt_tradeid t \<notin> vt_tradeids e
         \<and> orderid_strategy_map e (trade_vt_orderid t) = Some r
         \<and> trade_vt_symbol t = i
      then get_pos (objs e r) i + signed_volume t
      else get_pos (objs e r) i)"
  by (simp add: process_trade_event_def call_strategy_func_def on_obj_def Let_def
      get_pos_update_trade split: option.splits)

lemma first_deliveries_ids:
  "trade_vt_tradeid ` set (first_deliveries seen ts) = trade_vt_tradeid ` set ts - seen"
  by (induction ts arbitrary: seen) auto

lemma first_deliveries_distinct:
  "distinct (map trade_vt_tradeid (first_deliveries seen ts))"
  by (induction ts arbitrary: seen) (auto simp: first_deliveries_ids)

lemma process_trade_events_pos_sum:
  "get_pos (objs (process_trade_events ts e) r) i =
     get_pos (objs e r) i +
     sum_list (map signed_volume
       (filter (\<lambda>t. orderid_strategy_map e (trade_vt_orderid t) = Some r \<and> trade_vt_symbol t = i)
          (first_deliveries (vt_tradeids e) ts)))"
proof (induction ts arbitrary: e)
  case Nil
  show ?case by simp
next
  case (Cons t ts)
  show ?case
    by (auto simp add: Cons.IH process_trade_event_pos process_trade_event_ids
        process_trade_event_map insert_absorb)
qed

text \<open>
  C1. After any sequence of trade events, the position of a strategy in an instrument
  is its position before plus the sum of the signed volumes (plus for a LONG fill,
  minus otherwise) of the fills for that instrument whose order id maps to the
  strategy, each trade id counting once: the fills summed are the first deliveries of
  the trade ids not applied before, and their trade ids are pairwise distinct.
\<close>

theorem process_trade_events_position:
  "get_pos (objs (process_trade_events ts e) r) i =
     get_pos (objs e r) i +
     sum_list (map signed_volume
       (filter (\<lambda>t. orderid_strategy_map e (trade_vt_orderid t) = Some r \<and> trade_vt_symbol t = i)
          (first_deliveries (vt_tradeids e) ts)))
   \<and> distinct (map trade_vt_tradeid (first_deliveries (vt_tradeids e) ts))
   \<and> trade_vt_tradeid ` set (first_deliveries (vt_tradeids e) ts) =
       trade_vt_tradeid ` set ts - vt_tradeids e"
  by (simp add: process_trade_events_pos_sum first_deliveries_distinct first_deliveries_ids)

section \<open>A strategy that is not trading\<close>

text \<open>
  C10. For a strategy whose trading flag is false, \<^verbatim>\<open>send_order\<close>, \<^verbatim>\<open>buy\<close>, \<^verbatim>\<open>sell\<close>,
  \<^verbatim>\<open>short\<close> and \<^verbatim>\<open>cover\<close> return an empty list of order ids and leave the whole state
  as it was (nothing reaches the engine, \<^verbatim>\<open>active_orderids\<close> is unchanged), and
  \<^verbatim>\<open>cancel_order\<close> leaves the state as it was (no cancel request is forwarded).
\<close>

theorem not_trading_places_nothing:
  assumes "\<not> trading (objs e r)"
  shows "template_send_order en r vt_symbol direction offset price volume lock net e = (PyList [], e)
    \<and> buy en r vt_symbol price volume lock net e = (PyList [], e)
    \<and> sell en r vt_symbol price volume lock net e = (PyList [], e)
    \<and> short en r vt_symbol price volume lock net e = (PyList [], e)
    \<and> cover en r vt_symbol price volume lock net e = (PyList [], e)
    \<and> template_cancel_order en r vt_orderid e = e"
  using assms
  by (simp add: template_send_order_def buy_def sell_def short_def cover_def
      template_cancel_order_def)

theorem not_trading_places_nothing_witness:
  "\<not> trading (objs demo_engine 0)
    \<and> template_send_order demo_env 0 ''A.X'' LONG OPEN 10 1 False False demo_engine = (PyList [], demo_engine)
    \<and> buy demo_env 0 ''A.X'' 10 1 False False demo_engine = (PyList [], demo_engine)
    \<and> sell demo_env 0 ''A.X'' 10 1 False False demo_engine = (PyList [], demo_engine)
    \<and> short demo_env 0 ''A.X'' 10 1 False False demo_engine = (PyList [], demo_engine)
    \<and> cover demo_env 0 ''A.X'' 10 1 False False demo_engine = (PyList [], demo_engine)
    \<and> template_cancel_order demo_env 0 ''o1'' demo_engine = demo_engine"
proof -
  have h: "\<not> trading (objs demo_engine 0)"
    by (simp add: demo_engine_def demo_strategy_def)
  show ?thesis
    using h not_trading_places_nothing [OF h, of demo_env "''A.X''" LONG OPEN 10 1 False False "''o1''"]
    by simp
qed

lemmas demo_defs = demo_env_def demo_engine_def demo_strategy_def demo_contract_def
  demo_order_def demo_bar_def demo_inited_engine_def demo_trading_engine_def

section \<open>Placing an order at the engine\<close>

lemma send_reqs_send_calls:
  "filter is_send_order (calls (snd (send_reqs en r gw reqs ids e))) =
     filter is_send_order (calls e) @ map (\<lambda>q. MainSendOrder q gw) reqs"
  by (induction reqs arbitrary: ids e) (simp_all add: Let_def)


text \<open>
  C6. \<^verbatim>\<open>StrategyEngine.send_order\<close> returns a value in every case (the model is a total
  function with no error result: nothing is raised). When the contract is absent it
  logs the failure and returns the empty string, which holds zero order ids. When the
  contract is present, the request handed to the main engine's converter carries the
  price rounded with the contract's price tick and the volume rounded with its
  minimum volume, and the orders sent to the gateway are exactly the converter's
  children of that request.
\<close>

theorem engine_send_order_contract:
  "(get_contract en vt_symbol = None \<longrightarrow>
      engine_send_order en r vt_symbol direction offset price volume lock net e =
        (PyStr [],
         e\<lparr>calls := calls e @
              [EventPut (PortfolioLog
                 (strategy_name (objs e r) @ '': Order failed, contract not found: '' @ vt_symbol))]\<rparr>)
      \<and> iter_ids (fst (engine_send_order en r vt_symbol direction offset price volume lock net e)) = [])
   \<and> (get_contract en vt_symbol = Some contract \<longrightarrow>
        (let req = \<lparr>req_symbol = contract_symbol contract,
                    req_exchange = contract_exchange contract,
                    req_direction = direction, req_offset = offset, req_type = LIMIT,
                    req_price = round_to en price (contract_pricetick contract),
                    req_volume = round_to en volume (contract_min_volume contract),
                    req_reference = APP_NAME @ ''_'' @ strategy_name (objs e r)\<rparr>;
             gw = contract_gateway_name contract;
             children = convert_order_request en req gw lock net;
             result = engine_send_order en r vt_symbol direction offset price volume lock net e
         in result = (PyList (fst (send_reqs en r gw children [] e)),
                      snd (send_reqs en r gw children [] e))
            \<and> filter is_send_order (calls (snd result)) =
                filter is_send_order (calls e) @ map (\<lambda>q. MainSendOrder q gw) children))"
  by (simp add: engine_send_order_def write_log_def original_req_def Let_def
      send_reqs_send_calls case_prod_beta)


theorem engine_send_order_contract_witness:
  "get_contract demo_env ''B.Y'' = None
   \<and> engine_send_order demo_env 0 ''B.Y'' LONG OPEN 10 2 False False demo_engine =
       (PyStr [],
        demo_engine\<lparr>calls :=
          [EventPut (PortfolioLog ''s1: Order failed, contract not found: B.Y'')]\<rparr>)
   \<and> get_contract demo_env ''A.X'' = Some demo_contract
   \<and> fst (engine_send_order demo_env 0 ''A.X'' LONG OPEN 10 2 False False demo_engine) =
       PyList [''n'']
   \<and> calls (snd (engine_send_order demo_env 0 ''A.X'' LONG OPEN 10 2 False False demo_engine)) =
       [MainSendOrder
          \<lparr>req_symbol = ''A'', req_exchange = ''X'', req_direction = LONG, req_offset = OPEN,
           req_type = LIMIT, req_price = 10, req_volume = 2,
           req_reference = ''PortfolioStrategy_s1''\<rparr> ''GW'',
        MainUpdateOrderRequest
          \<lparr>req_symbol = ''A'', req_exchange = ''X'', req_direction = LONG, req_offset = OPEN,
           req_type = LIMIT, req_price = 10, req_volume = 2,
           req_reference = ''PortfolioStrategy_s1''\<rparr> ''n'' ''GW'']"
proof -
  have a: "get_contract demo_env ''B.Y'' = None"
    by (simp add: demo_env_def)
  have b: "get_contract demo_env ''A.X'' = Some demo_contract"
    by (simp add: demo_env_def)
  have c: "convert_order_request demo_env q gw lock net = [q]"
    "main_send_order demo_env cs q gw = CHR ''n'' # replicate (length cs) (CHR ''i'')"
    "round_to demo_env v t = v" for q gw lock net cs v t
    by (simp_all add: demo_env_def)
  have d: "calls demo_engine = []" "strategy_name (objs demo_engine 0) = ''s1''"
    by (simp_all add: demo_engine_def demo_strategy_def)
  show ?thesis
    using engine_send_order_contract [of demo_env "''B.Y''" 0 LONG OPEN 10 2 False False demo_engine demo_contract]
      engine_send_order_contract [of demo_env "''A.X''" 0 LONG OPEN 10 2 False False demo_engine demo_contract]
    by (simp add: a b c d Let_def demo_contract_def APP_NAME_def)
qed


section \<open>Initialisation\<close>





text \<open>
  C2, evaluated on a strategy whose \<^verbatim>\<open>on_init\<close> hook raises: the handler of
  \<^verbatim>\<open>call_strategy_func\<close> clears both flags, and the pass then goes on to its last
  statements and sets \<^verbatim>\<open>inited\<close>; at the end \<^verbatim>\<open>inited\<close> is true and \<^verbatim>\<open>trading\<close> is false.
\<close>

theorem init_with_raising_hook_ends_inited:
  "fst (on_init demo_env 0 (write_log ''s1 start performing initialization'' None demo_engine))
     = Raised ''boom''
   \<and> map_sum id (\<lambda>e'. (inited (objs e' 0), trading (objs e' 0)))
       (init_strategy_impl demo_env ''s1'' demo_engine) = Inr (True, False)"
  by (simp add: demo_defs init_strategy_impl_def write_log_def call_strategy_func_def on_obj_def
      put_strategy_event_def get_data_def get_parameters_def get_variables_def
      getattr_strategy_def contents_def ledger_def Let_def)

section \<open>Stopping\<close>

text \<open>
  C3, evaluated on a trading strategy with one active order that the main engine
  knows: \<^verbatim>\<open>stop_strategy\<close> clears the trading flag before it calls \<^verbatim>\<open>cancel_all\<close>, whose
  \<^verbatim>\<open>cancel_order\<close> forwards only while the flag is set; no cancel request is forwarded,
  the order id stays active, and the variables are written once.
\<close>

theorem stop_forwards_no_cancel:
  "trading (objs demo_trading_engine 0)
   \<and> active_orderids (objs demo_trading_engine 0) = [''o1'']
   \<and> get_order demo_env ''o1'' = Some demo_order
   \<and> map_sum id (\<lambda>e'. (trading (objs e' 0), active_orderids (objs e' 0),
                        filter is_cancel_order (calls e'), length (filter is_save_json (calls e'))))
       (stop_strategy demo_env ''s1'' demo_trading_engine) = Inr (False, [''o1''], [], 1)"
  by (simp add: demo_defs stop_strategy_def write_log_def call_strategy_func_def on_obj_def
      put_strategy_event_def get_data_def get_parameters_def get_variables_def
      getattr_strategy_def contents_def ledger_def Let_def cancel_all_def
      template_cancel_order_def sync_strategy_data_def dict_pop_def)

section \<open>Historical bars\<close>

text \<open>
  C8 as stated fails: with a direct feed that is available and answers an empty
  sequence, \<^verbatim>\<open>load_bar\<close> asks the database next and returns its bars; the data feed,
  which has a bar, is not asked, so the result is not the first non-empty answer of
  the three sources in their order of priority.
\<close>

theorem load_bar_skips_data_feed:
  "load_bar demo_env ''A.X'' 1 MINUTE demo_engine =
     Inr ([demo_bar 120 20],
          demo_engine\<lparr>calls :=
            [MainQueryHistory
               \<lparr>hist_symbol = ''A'', hist_exchange = ''X'', hist_interval = MINUTE,
                hist_start = 0, hist_end = 86400\<rparr> ''GW'',
             DatabaseLoadBarData ''A'' ''X'' MINUTE 0 86400]\<rparr>)
   \<and> first_non_empty
       [query_history demo_env
          \<lparr>hist_symbol = ''A'', hist_exchange = ''X'', hist_interval = MINUTE,
           hist_start = 0, hist_end = 86400\<rparr> ''GW'',
        query_bar_history demo_env
          \<lparr>hist_symbol = ''A'', hist_exchange = ''X'', hist_interval = MINUTE,
           hist_start = 0, hist_end = 86400\<rparr>,
        load_bar_data demo_env ''A'' ''X'' MINUTE 0 86400] = [demo_bar 60 10]
   \<and> demo_bar 120 20 \<noteq> demo_bar 60 10"
  by (simp add: demo_env_def demo_engine_def demo_contract_def load_bar_def Let_def demo_bar_def)

text \<open>
  C8, amended. \<^verbatim>\<open>load_bar\<close> asks exactly one primary source: the contract's gateway
  when the contract is known and offers history, the data feed otherwise. It returns
  the primary answer when that is not empty, and the database's answer when it is
  empty. When the direct feed is available the data feed is not asked.
\<close>

theorem load_bar_primary_then_database:
  assumes "extract_vt_symbol en vt_symbol = Some (symbol, exchange)"
  shows "(direct_feed en vt_symbol = Some gw \<longrightarrow>
            load_bar en vt_symbol days interval e =
              (let start = now en - days * 86400;
                   req = \<lparr>hist_symbol = symbol, hist_exchange = exchange, hist_interval = interval,
                          hist_start = start, hist_end = now en\<rparr>
               in if query_history en req gw \<noteq> []
                  then Inr (query_history en req gw,
                            e\<lparr>calls := calls e @ [MainQueryHistory req gw]\<rparr>)
                  else Inr (load_bar_data en symbol exchange interval start (now en),
                            e\<lparr>calls := calls e @
                                 [MainQueryHistory req gw,
                                  DatabaseLoadBarData symbol exchange interval start (now en)]\<rparr>)))
       \<and> (direct_feed en vt_symbol = None \<longrightarrow>
            load_bar en vt_symbol days interval e =
              (let start = now en - days * 86400;
                   req = \<lparr>hist_symbol = symbol, hist_exchange = exchange, hist_interval = interval,
                          hist_start = start, hist_end = now en\<rparr>
               in if query_bar_history en req \<noteq> []
                  then Inr (query_bar_history en req,
                            e\<lparr>calls := calls e @ [DatafeedQueryBarHistory req]\<rparr>)
                  else Inr (load_bar_data en symbol exchange interval start (now en),
                            e\<lparr>calls := calls e @
                                 [DatafeedQueryBarHistory req,
                                  DatabaseLoadBarData symbol exchange interval start (now en)]\<rparr>)))"
  using assms
  by (auto simp add: load_bar_def direct_feed_def Let_def split: option.splits if_splits)


theorem load_bar_primary_then_database_witness:
  "extract_vt_symbol demo_env ''A.X'' = Some (''A'', ''X'')
   \<and> direct_feed demo_env ''A.X'' = Some ''GW''
   \<and> load_bar demo_env ''A.X'' 1 MINUTE demo_engine =
       Inr ([demo_bar 120 20],
            demo_engine\<lparr>calls :=
              [MainQueryHistory
                 \<lparr>hist_symbol = ''A'', hist_exchange = ''X'', hist_interval = MINUTE,
                  hist_start = 0, hist_end = 86400\<rparr> ''GW'',
               DatabaseLoadBarData ''A'' ''X'' MINUTE 0 86400]\<rparr>)
   \<and> extract_vt_symbol demo_env ''B.Y'' = Some (''B'', ''Y'')
   \<and> direct_feed demo_env ''B.Y'' = None
   \<and> load_bar demo_env ''B.Y'' 1 MINUTE demo_engine =
       Inr ([demo_bar 60 10],
            demo_engine\<lparr>calls :=
              [DatafeedQueryBarHistory
                 \<lparr>hist_symbol = ''B'', hist_exchange = ''Y'', hist_interval = MINUTE,
                  hist_start = 0, hist_end = 86400\<rparr>]\<rparr>)"
proof -
  have a: "extract_vt_symbol demo_env ''A.X'' = Some (''A'', ''X'')"
    by (simp add: demo_env_def)
  have b: "extract_vt_symbol demo_env ''B.Y'' = Some (''B'', ''Y'')"
    by (simp add: demo_env_def)
  have da: "direct_feed demo_env ''A.X'' = Some ''GW''"
    by (simp add: direct_feed_def demo_env_def demo_contract_def)
  have db: "direct_feed demo_env ''B.Y'' = None"
    by (simp add: direct_feed_def demo_env_def)
  have q: "query_history demo_env req gw = []" "query_bar_history demo_env req = [demo_bar 60 10]"
    "load_bar_data demo_env sy ex iv st en = [demo_bar 120 20]" "now demo_env = 86400"
    "calls demo_engine = []" for req gw sy ex iv st en
    by (simp_all add: demo_env_def demo_engine_def)
  show ?thesis
    using load_bar_primary_then_database [OF a, of "''GW''" 1 MINUTE demo_engine]
      load_bar_primary_then_database [OF b, of "''GW''" 1 MINUTE demo_engine]
    by (simp add: a b da db q)
qed

section \<open>Rebalancing\<close>

lemma target_of_lookup:
  "target_of s k = (case map_of (target_data s) k of Some t \<Rightarrow> t | None \<Rightarrow> 0)"
  by (simp add: target_of_def get_target_def split: option.splits)

lemma get_pos_touch: "get_pos (snd (get_target s k)) k' = get_pos s k'"
  by (simp add: get_target_def get_pos_def split: option.splits)

lemma target_of_touch: "target_of (snd (get_target s k)) k' = target_of s k'"
  by (auto simp add: get_target_def target_of_def split: option.splits if_splits)

lemma rebalance_step_legs:
  "rebalance_step en r item e =
     foldl (submit_leg en r (fst item) (leg_price en r e item)) (touch_target r (fst item) e)
       (spec_legs (target_of (objs e r) (fst item)) (get_pos (objs e r) (fst item)))"
  by (auto simp add: rebalance_step_def spec_legs_def leg_price_def touch_target_def target_of_def
      on_obj_def Let_def get_pos_touch cover_def buy_def sell_def short_def case_prod_beta)

lemma spec_legs_net: "sum_list (map leg_signed (spec_legs t p)) = t - p"
  by (auto simp add: spec_legs_def Let_def)

lemma spec_legs_positive: "list_all (\<lambda>l. 0 < leg_volume l) (spec_legs t p)"
  by (auto simp add: spec_legs_def Let_def)


subsection \<open>What placing and cancelling leave alone\<close>

lemma send_reqs_objs: "objs (snd (send_reqs en r gw reqs ids e)) = objs e"
  by (induction reqs arbitrary: ids e) (simp_all add: Let_def)

lemma engine_send_order_objs:
  "objs (snd (engine_send_order en r k d off p v lock net e)) = objs e"
  by (simp add: engine_send_order_def write_log_def case_prod_beta send_reqs_objs Let_def
      split: option.splits)

lemma add_ids_pos:
  "pos_data (objs (foldl (\<lambda>e' vt_orderid.
       on_obj r (\<lambda>s. s\<lparr>active_orderids := set_add vt_orderid (active_orderids s)\<rparr>) e') e ids) r') =
   pos_data (objs e r')"
  by (induction ids arbitrary: e) (simp_all add: on_obj_def)

lemma add_ids_target:
  "target_data (objs (foldl (\<lambda>e' vt_orderid.
       on_obj r (\<lambda>s. s\<lparr>active_orderids := set_add vt_orderid (active_orderids s)\<rparr>) e') e ids) r') =
   target_data (objs e r')"
  by (induction ids arbitrary: e) (simp_all add: on_obj_def)

lemma template_send_order_pos:
  "pos_data (objs (snd (template_send_order en r k d off p v lock net e)) r') = pos_data (objs e r')"
  by (simp add: template_send_order_def case_prod_beta Let_def add_ids_pos engine_send_order_objs)

lemma template_send_order_target:
  "target_data (objs (snd (template_send_order en r k d off p v lock net e)) r') =
   target_data (objs e r')"
  by (simp add: template_send_order_def case_prod_beta Let_def add_ids_target engine_send_order_objs)

lemma submit_leg_pos:
  "get_pos (objs (submit_leg en r k p e l) r') k' = get_pos (objs e r') k'"
  by (cases l) (simp add: get_pos_def template_send_order_pos)

lemma submit_leg_target:
  "target_of (objs (submit_leg en r k p e l) r') k' = target_of (objs e r') k'"
  by (cases l) (simp add: target_of_lookup template_send_order_target)

lemmas submit_leg_ledger = submit_leg_pos submit_leg_target

lemma submit_legs_ledger:
  "get_pos (objs (foldl (submit_leg en r k p) e ls) r') k' = get_pos (objs e r') k'"
  "target_of (objs (foldl (submit_leg en r k p) e ls) r') k' = target_of (objs e r') k'"
  by (induction ls arbitrary: e) (simp_all add: submit_leg_ledger)

lemma touch_target_ledger:
  "get_pos (objs (touch_target r k e) r') k' = get_pos (objs e r') k'"
  "target_of (objs (touch_target r k e) r') k' = target_of (objs e r') k'"
  by (simp_all add: touch_target_def on_obj_def get_pos_touch target_of_touch)

lemma template_cancel_order_frame:
  "objs (template_cancel_order en r i e) = objs e"
  "orderid_strategy_map (template_cancel_order en r i e) = orderid_strategy_map e"
  "filter is_send_order (calls (template_cancel_order en r i e)) = filter is_send_order (calls e)"
  by (simp_all add: template_cancel_order_def engine_cancel_order_def write_log_def
      split: option.splits)

lemma cancel_orders_frame:
  "objs (foldl (\<lambda>e' i. template_cancel_order en r i e') e ids) = objs e"
  "orderid_strategy_map (foldl (\<lambda>e' i. template_cancel_order en r i e') e ids) =
     orderid_strategy_map e"
  "filter is_send_order (calls (foldl (\<lambda>e' i. template_cancel_order en r i e') e ids)) =
     filter is_send_order (calls e)"
  by (induction ids arbitrary: e) (simp_all add: template_cancel_order_frame)

lemma cancel_all_frame:
  "objs (cancel_all en r e) = objs e"
  "orderid_strategy_map (cancel_all en r e) = orderid_strategy_map e"
  "filter is_send_order (calls (cancel_all en r e)) = filter is_send_order (calls e)"
  by (simp_all add: cancel_all_def cancel_orders_frame)


lemma rebalance_steps_legs:
  assumes "\<And>k. get_pos (objs e' r) k = get_pos (objs e r) k"
    and "\<And>k. target_of (objs e' r) k = target_of (objs e r) k"
  shows "foldl (\<lambda>e' item. rebalance_step en r item e') e' bars =
     foldl (\<lambda>e' item.
         foldl (submit_leg en r (fst item) (leg_price en r e item)) (touch_target r (fst item) e')
           (spec_legs (target_of (objs e r) (fst item)) (get_pos (objs e r) (fst item))))
       e' bars"
  using assms
proof (induction bars arbitrary: e')
  case Nil
  show ?case by simp
next
  case (Cons item bars)
  have price: "leg_price en r e' item = leg_price en r e item"
    by (simp add: leg_price_def Cons.prems)
  have step: "rebalance_step en r item e' =
      foldl (submit_leg en r (fst item) (leg_price en r e item)) (touch_target r (fst item) e')
        (spec_legs (target_of (objs e r) (fst item)) (get_pos (objs e r) (fst item)))"
    by (simp add: rebalance_step_legs price Cons.prems)
  have "foldl (\<lambda>e' item. rebalance_step en r item e') (rebalance_step en r item e') bars =
     foldl (\<lambda>e' item.
         foldl (submit_leg en r (fst item) (leg_price en r e item)) (touch_target r (fst item) e')
           (spec_legs (target_of (objs e r) (fst item)) (get_pos (objs e r) (fst item))))
       (rebalance_step en r item e') bars"
    by (rule Cons.IH) (simp_all add: step submit_legs_ledger touch_target_ledger Cons.prems)
  then show ?case
    by (simp add: step)
qed

lemma rebalance_portfolio_by_legs:
  "rebalance_portfolio en r bars e =
     foldl (\<lambda>e' item.
         foldl (submit_leg en r (fst item) (leg_price en r e item)) (touch_target r (fst item) e')
           (spec_legs (target_of (objs e r) (fst item)) (get_pos (objs e r) (fst item))))
       (cancel_all en r e) bars"
proof -
  have "foldl (\<lambda>e' item. rebalance_step en r item e') (cancel_all en r e) bars =
     foldl (\<lambda>e' item.
         foldl (submit_leg en r (fst item) (leg_price en r e item)) (touch_target r (fst item) e')
           (spec_legs (target_of (objs e r) (fst item)) (get_pos (objs e r) (fst item))))
       (cancel_all en r e) bars"
    by (rule rebalance_steps_legs) (simp_all add: cancel_all_frame)
  then show ?thesis
    by (simp add: rebalance_portfolio_def)
qed

text \<open>
  C4. A rebalancing pass is the cancellation of the active orders followed, for every
  item of \<^verbatim>\<open>bars\<close> in its order, by the submission of exactly the legs the
  specification gives for the target and the position the strategy had when the pass
  began: for a positive difference a close-short leg of \<open>min diff (max 0 (- position))\<close>
  and an open-long leg of the rest, for a negative difference a close-long leg of
  \<open>min |diff| (max 0 position)\<close> and an open-short leg of the rest, legs of volume
  zero left out. The signed volumes of the legs of an instrument add up to target
  minus position, and every submitted leg has a positive volume.
\<close>

theorem rebalance_portfolio_legs:
  "rebalance_portfolio en r bars e =
     foldl (\<lambda>e' item.
         foldl (submit_leg en r (fst item) (leg_price en r e item)) (touch_target r (fst item) e')
           (spec_legs (target_of (objs e r) (fst item)) (get_pos (objs e r) (fst item))))
       (cancel_all en r e) bars
   \<and> sum_list (map leg_signed (spec_legs t p)) = t - p
   \<and> list_all (\<lambda>l. 0 < leg_volume l) (spec_legs t p)"
  by (simp add: rebalance_portfolio_by_legs [symmetric] spec_legs_net spec_legs_positive)

lemma spec_legs_same: "spec_legs t t = []"
  by (simp add: spec_legs_def)

lemma touch_target_frame:
  "calls (touch_target r k e) = calls e"
  "orderid_strategy_map (touch_target r k e) = orderid_strategy_map e"
  "active_orderids (objs (touch_target r k e) r') = active_orderids (objs e r')"
  by (simp_all add: touch_target_def on_obj_def get_target_def split: option.splits)

lemma touch_targets_frame:
  "calls (foldl (\<lambda>e' item. touch_target r (fst item) e') e bars) = calls e"
  "orderid_strategy_map (foldl (\<lambda>e' item. touch_target r (fst item) e') e bars) =
     orderid_strategy_map e"
  "active_orderids (objs (foldl (\<lambda>e' item. touch_target r (fst item) e') e bars) r') =
     active_orderids (objs e r')"
  by (induction bars arbitrary: e) (simp_all add: touch_target_frame)

lemma rebalance_at_target_touches:
  assumes "\<forall>item\<in>set bars. get_pos (objs e r) (fst item) = target_of (objs e r) (fst item)"
  shows "rebalance_portfolio en r bars e =
     foldl (\<lambda>e' item. touch_target r (fst item) e') (cancel_all en r e) bars"
proof -
  have "foldl (\<lambda>e' item.
         foldl (submit_leg en r (fst item) (leg_price en r e item)) (touch_target r (fst item) e')
           (spec_legs (target_of (objs e r) (fst item)) (get_pos (objs e r) (fst item))))
       (cancel_all en r e) bars =
     foldl (\<lambda>e' item. touch_target r (fst item) e') (cancel_all en r e) bars"
    by (rule foldl_cong) (simp_all add: assms spec_legs_same)
  then show ?thesis
    by (simp add: rebalance_portfolio_by_legs)
qed

text \<open>
  C5. When the position equals the target for every instrument of \<^verbatim>\<open>bars\<close>, a
  rebalancing pass only cancels the active orders and reads the targets: no order is
  sent to the main engine, no order id is registered, and \<^verbatim>\<open>active_orderids\<close> is
  unchanged.
\<close>

theorem rebalance_at_target_places_nothing:
  assumes "\<forall>item\<in>set bars. get_pos (objs e r) (fst item) = target_of (objs e r) (fst item)"
  shows "rebalance_portfolio en r bars e =
       foldl (\<lambda>e' item. touch_target r (fst item) e') (cancel_all en r e) bars
   \<and> filter is_send_order (calls (rebalance_portfolio en r bars e)) =
       filter is_send_order (calls e)
   \<and> orderid_strategy_map (rebalance_portfolio en r bars e) = orderid_strategy_map e
   \<and> active_orderids (objs (rebalance_portfolio en r bars e) r) = active_orderids (objs e r)"
  by (simp add: rebalance_at_target_touches [OF assms] touch_targets_frame cancel_all_frame)

lemmas run_defs = rebalance_portfolio_def rebalance_step_def cancel_all_def get_target_def
  get_pos_def on_obj_def sell_def short_def buy_def cover_def template_send_order_def
  engine_send_order_def original_req_def APP_NAME_def Let_def set_add_def

theorem rebalance_portfolio_legs_witness:
  "spec_legs (- 2) 3 = [Leg SHORT CLOSE 3, Leg SHORT OPEN 2]
   \<and> sum_list (map leg_signed (spec_legs (- 2) 3)) = - 2 - 3
   \<and> spec_legs 3 0 = [Leg LONG OPEN 3]
   \<and> filter is_send_order
       (calls (rebalance_portfolio demo_env 0 [(''A.X'', demo_bar 60 10)] (demo_ledger_engine 3 (- 2)))) =
       [MainSendOrder (demo_req SHORT CLOSE 3) ''GW'', MainSendOrder (demo_req SHORT OPEN 2) ''GW'']"
proof -
  note th = rebalance_portfolio_legs
    [of demo_env 0 "[(''A.X'', demo_bar 60 10)]" "demo_ledger_engine 3 (- 2)" "- 2" 3]
  have a: "filter is_send_order
       (calls (rebalance_portfolio demo_env 0 [(''A.X'', demo_bar 60 10)] (demo_ledger_engine 3 (- 2)))) =
       [MainSendOrder (demo_req SHORT CLOSE 3) ''GW'', MainSendOrder (demo_req SHORT OPEN 2) ''GW'']"
    by (subst th [THEN conjunct1])
      (simp add: spec_legs_def leg_price_def touch_target_def target_of_def demo_defs
        demo_ledger_engine_def demo_req_def run_defs)
  have b: "sum_list (map leg_signed (spec_legs (- 2) 3)) = - 2 - 3"
    using th [THEN conjunct2, THEN conjunct1] .
  show ?thesis
    using a b by (simp add: spec_legs_def)
qed

theorem rebalance_at_target_places_nothing_witness:
  "get_pos (objs (demo_ledger_engine 3 3) 0) ''A.X'' = 3
   \<and> target_of (objs (demo_ledger_engine 3 3) 0) ''A.X'' = 3
   \<and> filter is_send_order
       (calls (rebalance_portfolio demo_env 0 [(''A.X'', demo_bar 60 10)] (demo_ledger_engine 3 3))) = []
   \<and> active_orderids
       (objs (rebalance_portfolio demo_env 0 [(''A.X'', demo_bar 60 10)] (demo_ledger_engine 3 3)) 0) = []"
proof -
  have h: "\<forall>item\<in>set [(''A.X'', demo_bar 60 10)].
      get_pos (objs (demo_ledger_engine 3 3) 0) (fst item) =
      target_of (objs (demo_ledger_engine 3 3) 0) (fst item)"
    by (simp add: demo_ledger_engine_def demo_defs get_pos_def target_of_def get_target_def)
  have c: "calls (demo_ledger_engine 3 3) = []"
    "active_orderids (objs (demo_ledger_engine 3 3) 0) = []"
    by (simp_all add: demo_ledger_engine_def demo_defs)
  show ?thesis
    using h rebalance_at_target_places_nothing [OF h, of demo_env, THEN conjunct2]
    by (simp add: c demo_ledger_engine_def demo_defs get_pos_def target_of_def get_target_def)
qed

section \<open>Forward filling of historical bars\<close>

lemma flat_bar_flat: "flat_bar (flat_bar b dt) dt' = flat_bar b dt'"
  by (simp add: flat_bar_def)

lemma fill_bars_lookup:
  "map_of (fill_bars h dt syms bars) s =
     (if s \<in> set syms
      then (case h (dt, s) of
              Some b \<Rightarrow> Some b
            | None \<Rightarrow> map_option (\<lambda>old_bar. flat_bar old_bar dt) (map_of bars s))
      else map_of bars s)"
proof (induction syms arbitrary: bars)
  case Nil
  show ?case by simp
next
  case (Cons x syms)
  show ?case
  proof (cases "h (dt, x)")
    case (Some bar)
    then show ?thesis
      by (simp add: Cons.IH update_conv' split: option.splits)
  next
    case None
    show ?thesis
    proof (cases "map_of bars x")
      case (Some old_bar)
      with None show ?thesis
        by (simp add: Cons.IH update_conv' flat_bar_flat split: option.splits)
    next
      case n: None
      with None show ?thesis
        by (simp add: Cons.IH split: option.splits)
    qed
  qed
qed

lemma bars_sequence_length: "length (bars_sequence h syms dts bars) = length dts"
  by (induction dts arbitrary: bars) (simp_all add: Let_def)

lemma bars_sequence_0:
  "0 < length dts \<Longrightarrow> bars_sequence h syms dts bars ! 0 = fill_bars h (dts ! 0) syms bars"
  by (cases dts) (simp_all add: Let_def)

lemma bars_sequence_Suc:
  "Suc k < length dts \<Longrightarrow>
     bars_sequence h syms dts bars ! Suc k =
     fill_bars h (dts ! Suc k) syms (bars_sequence h syms dts bars ! k)"
proof (induction dts arbitrary: bars k)
  case Nil
  then show ?case by simp
next
  case (Cons dt dts)
  show ?case
  proof (cases k)
    case 0
    with Cons.prems show ?thesis
      by (simp add: Let_def bars_sequence_0)
  next
    case (Suc k')
    with Cons.prems show ?thesis
      by (simp add: Let_def Cons.IH)
  qed
qed

lemma replay_bars_fold:
  "replay_bars en r h syms dts bars e =
     foldl (\<lambda>e' bs. call_on_bars en r bs e') e (bars_sequence h syms dts bars)"
  by (induction dts arbitrary: bars e) (simp_all add: Let_def)

lemma seq_real_bar:
  assumes "k < length dts" and "s \<in> set syms" and "h (dts ! k, s) = Some b"
  shows "map_of (bars_sequence h syms dts bars ! k) s = Some b"
proof (cases k)
  case 0
  with assms show ?thesis by (simp add: bars_sequence_0 fill_bars_lookup)
next
  case (Suc k')
  with assms show ?thesis by (simp add: bars_sequence_Suc fill_bars_lookup)
qed

lemma seq_no_bar_yet:
  assumes "k < length dts" and "\<forall>j\<le>k. h (dts ! j, s) = None"
  shows "map_of (bars_sequence h syms dts [] ! k) s = None"
  using assms
proof (induction k)
  case 0
  then show ?case by (simp add: bars_sequence_0 fill_bars_lookup)
next
  case (Suc k)
  then have "map_of (bars_sequence h syms dts [] ! k) s = None" by simp
  with Suc.prems show ?case by (simp add: bars_sequence_Suc fill_bars_lookup)
qed

lemma seq_outside:
  assumes "k < length dts" and "s \<notin> set syms"
  shows "map_of (bars_sequence h syms dts [] ! k) s = None"
  using assms
proof (induction k)
  case 0
  then show ?case by (simp add: bars_sequence_0 fill_bars_lookup)
next
  case (Suc k)
  then have "map_of (bars_sequence h syms dts [] ! k) s = None" by simp
  with Suc.prems show ?case by (simp add: bars_sequence_Suc fill_bars_lookup)
qed

lemma seq_gap:
  assumes "s \<in> set syms" and "h (dts ! j, s) = Some b0"
    and "j + d < length dts" and "\<forall>m. j < m \<and> m \<le> j + d \<longrightarrow> h (dts ! m, s) = None"
  shows "map_of (bars_sequence h syms dts bars ! (j + d)) s =
           Some (if d = 0 then b0 else flat_bar b0 (dts ! (j + d)))"
  using assms(3,4)
proof (induction d)
  case 0
  with assms(1,2) show ?case by (simp add: seq_real_bar)
next
  case (Suc d)
  then have prev: "map_of (bars_sequence h syms dts bars ! (j + d)) s =
           Some (if d = 0 then b0 else flat_bar b0 (dts ! (j + d)))"
    by simp
  have none: "h (dts ! Suc (j + d), s) = None"
    using Suc.prems(2) by simp
  show ?case
    using Suc.prems(1) assms(1) prev none
    by (simp add: bars_sequence_Suc fill_bars_lookup flat_bar_flat)
qed

lemma seq_forward_fill:
  assumes "k < length dts" and "s \<in> set syms" and "j < k" and "h (dts ! j, s) = Some b0"
    and "\<forall>m. j < m \<and> m \<le> k \<longrightarrow> h (dts ! m, s) = None"
  shows "map_of (bars_sequence h syms dts bars ! k) s = Some (flat_bar b0 (dts ! k))"
proof -
  obtain d where d: "k = j + d" "d \<noteq> 0"
    using assms(3) by (metis less_imp_add_positive less_not_refl)
  show ?thesis
    using seq_gap [of s syms h dts j b0 d bars] assms d by simp
qed

lemma load_bar_data_indep:
  "map_sum id fst (load_bar en s days interval e) = map_sum id fst (load_bar en s days interval e')"
  by (simp add: load_bar_def Let_def split: option.splits prod.splits)

lemma bar_data_indep: "bar_data en days interval e s = bar_data en days interval e' s"
  using load_bar_data_indep [of en s days interval e e']
  by (auto simp add: bar_data_def split: sum.splits)

lemma load_bar_splits:
  assumes "extract_vt_symbol en s \<noteq> None"
  shows "\<exists>e1. load_bar en s days interval e = Inr (bar_data en days interval e s, e1)"
  using assms
  by (auto simp add: bar_data_def load_bar_def Let_def split: option.splits prod.splits)

lemma store_bars_history:
  "snd (store_bars s data acc) (dt, s') =
     (if s' = s
      then (case filter (\<lambda>b. bar_datetime b = dt) data of
              [] \<Rightarrow> snd acc (dt, s')
            | b # bs \<Rightarrow> Some (last (b # bs)))
      else snd acc (dt, s'))"
proof (induction data arbitrary: acc)
  case Nil
  show ?case by simp
next
  case (Cons bar data)
  show ?case
    by (auto simp add: Cons.IH split: list.splits)
qed

lemma store_bars_times:
  "set (fst (store_bars s data acc)) = set (fst acc) \<union> bar_datetime ` set data"
  by (induction data arbitrary: acc) auto


lemma load_history_result:
  assumes "\<forall>s\<in>set syms. extract_vt_symbol en s \<noteq> None"
  shows "\<exists>dts h.
     load_history en syms days interval (ts0, h0) e =
       Inr ((dts, h), loaded_state en days interval e syms)
     \<and> set dts = set ts0 \<union> (\<Union>s\<in>set syms. bar_datetime ` set (bar_data en days interval e0 s))
     \<and> (\<forall>dt s. h (dt, s) =
           (if s \<in> set syms
            then (case filter (\<lambda>b. bar_datetime b = dt) (bar_data en days interval e0 s) of
                    [] \<Rightarrow> h0 (dt, s)
                  | b # bs \<Rightarrow> Some (last (b # bs)))
            else h0 (dt, s)))"
  using assms
proof (induction syms arbitrary: ts0 h0 e)
  case Nil
  show ?case
    by (simp add: loaded_state_def)
next
  case (Cons x syms)
  from Cons.prems have x: "extract_vt_symbol en x \<noteq> None" by simp
  from load_bar_splits [OF x, of days interval e]
  obtain e1 where lb: "load_bar en x days interval e = Inr (bar_data en days interval e x, e1)"
    by blast
  have dx: "bar_data en days interval e x = bar_data en days interval e0 x"
    by (rule bar_data_indep)
  from Cons.prems have rest: "\<forall>s\<in>set syms. extract_vt_symbol en s \<noteq> None" by simp
  obtain ts1 h1 where acc1: "store_bars x (bar_data en days interval e0 x) (ts0, h0) = (ts1, h1)"
    by (cases "store_bars x (bar_data en days interval e0 x) (ts0, h0)")
  have ts1: "set ts1 = set ts0 \<union> bar_datetime ` set (bar_data en days interval e0 x)"
    using store_bars_times [of x "bar_data en days interval e0 x" "(ts0, h0)"] by (simp add: acc1)
  have h1: "h1 (dt, s) =
     (if s = x
      then (case filter (\<lambda>b. bar_datetime b = dt) (bar_data en days interval e0 x) of
              [] \<Rightarrow> h0 (dt, s)
            | b # bs \<Rightarrow> Some (last (b # bs)))
      else h0 (dt, s))" for dt s
    using store_bars_history [of x "bar_data en days interval e0 x" "(ts0, h0)" dt s]
    by (simp add: acc1 split: list.splits)
  from Cons.IH [OF rest, of ts1 h1 e1]
  obtain dts h where
    lh: "load_history en syms days interval (ts1, h1) e1 =
           Inr ((dts, h), loaded_state en days interval e1 syms)"
    and ts: "set dts = set ts1 \<union>
               (\<Union>s\<in>set syms. bar_datetime ` set (bar_data en days interval e0 s))"
    and hs: "\<forall>dt s. h (dt, s) =
           (if s \<in> set syms
            then (case filter (\<lambda>b. bar_datetime b = dt) (bar_data en days interval e0 s) of
                    [] \<Rightarrow> h1 (dt, s)
                  | b # bs \<Rightarrow> Some (last (b # bs)))
            else h1 (dt, s))"
    by blast
  have st: "loaded_state en days interval e (x # syms) = loaded_state en days interval e1 syms"
    by (simp add: loaded_state_def lb)
  have a: "load_history en (x # syms) days interval (ts0, h0) e =
       Inr ((dts, h), loaded_state en days interval e (x # syms))"
    by (simp add: lb dx acc1 lh st)
  have b: "set dts = set ts0 \<union>
       (\<Union>s\<in>set (x # syms). bar_datetime ` set (bar_data en days interval e0 s))"
    by (auto simp add: ts ts1)
  have c: "\<forall>dt s. h (dt, s) =
           (if s \<in> set (x # syms)
            then (case filter (\<lambda>b. bar_datetime b = dt) (bar_data en days interval e0 s) of
                    [] \<Rightarrow> h0 (dt, s)
                  | b # bs \<Rightarrow> Some (last (b # bs)))
            else h0 (dt, s))"
    by (auto simp add: hs h1 split: list.splits)
  from a b c show ?case by blast
qed


lemma sort_remdups_cong: "set xs = set ys \<Longrightarrow> sort (remdups xs) = sort (remdups (ys :: int list))"
  by (metis sorted_list_of_set_sort_remdups)

lemma real_bar_pair:
  "real_bar en days interval e syms (dt, s) =
     (if s \<in> set syms
      then (case filter (\<lambda>b. bar_datetime b = dt) (bar_data en days interval e s) of
              [] \<Rightarrow> None
            | b # bs \<Rightarrow> Some (last (b # bs)))
      else None)"
  by (simp add: real_bar_def)

lemma load_history_from_empty:
  assumes "\<forall>s\<in>set syms. extract_vt_symbol en s \<noteq> None"
  shows "\<exists>dts h.
     load_history en syms days interval ([], Map.empty) e =
       Inr ((dts, h), loaded_state en days interval e syms)
     \<and> set dts = (\<Union>s\<in>set syms. bar_datetime ` set (bar_data en days interval e s))
     \<and> (\<forall>dt s. h (dt, s) = real_bar en days interval e syms (dt, s))"
  using load_history_result [OF assms, of days interval "[]" Map.empty e e]
  by (simp add: real_bar_pair)

lemma load_bars_callbacks:
  assumes "\<forall>s\<in>set (vt_symbols (objs e r)). extract_vt_symbol en s \<noteq> None"
  shows "load_bars en r days interval e =
     Inr (foldl (\<lambda>e' bs. call_on_bars en r bs e')
            (loaded_state en days interval e (vt_symbols (objs e r)))
            (bars_sequence (real_bar en days interval e (vt_symbols (objs e r)))
               (vt_symbols (objs e r))
               (bar_times en days interval e (vt_symbols (objs e r))) []))"
proof -
  from load_history_from_empty [OF assms, of days interval e]
  obtain dts h where
    lh: "load_history en (vt_symbols (objs e r)) days interval ([], Map.empty) e =
           Inr ((dts, h), loaded_state en days interval e (vt_symbols (objs e r)))"
    and ts: "set dts =
       (\<Union>s\<in>set (vt_symbols (objs e r)). bar_datetime ` set (bar_data en days interval e s))"
    and hs: "\<forall>dt s. h (dt, s) = real_bar en days interval e (vt_symbols (objs e r)) (dt, s)"
    by blast
  have h: "h = real_bar en days interval e (vt_symbols (objs e r))"
    using hs by (intro ext) (metis prod.collapse)
  have t: "sort (remdups dts) = bar_times en days interval e (vt_symbols (objs e r))"
    unfolding bar_times_def by (rule sort_remdups_cong) (auto simp add: ts)
  show ?thesis
    by (simp add: load_bars_def Let_def lh h t replay_bars_fold)
qed

lemma bar_times_real_bar:
  assumes "k < length (bar_times en days interval e syms)"
  shows "\<exists>s b. s \<in> set syms \<and> real_bar en days interval e syms (bar_times en days interval e syms ! k, s) = Some b"
proof -
  have "bar_times en days interval e syms ! k \<in> set (bar_times en days interval e syms)"
    using assms by simp
  then obtain s b where s: "s \<in> set syms" and b: "b \<in> set (bar_data en days interval e s)"
    and dt: "bar_datetime b = bar_times en days interval e syms ! k"
    by (auto simp add: bar_times_def)
  from b dt have "filter (\<lambda>b. bar_datetime b = bar_times en days interval e syms ! k)
      (bar_data en days interval e s) \<noteq> []"
    by (auto simp add: filter_empty_conv)
  with s show ?thesis
    by (auto simp add: real_bar_pair split: list.splits)
qed

lemma callbacks_not_empty:
  assumes "k < length (bar_times en days interval e syms)"
  shows "bars_sequence (real_bar en days interval e syms) syms (bar_times en days interval e syms) [] ! k \<noteq> []"
proof -
  from bar_times_real_bar [OF assms]
  obtain s b where s: "s \<in> set syms"
    and b: "real_bar en days interval e syms (bar_times en days interval e syms ! k, s) = Some b"
    by blast
  have "map_of (bars_sequence (real_bar en days interval e syms) syms
          (bar_times en days interval e syms) [] ! k) s = Some b"
    using assms s b by (rule seq_real_bar)
  then show ?thesis by auto
qed

lemma real_bar_in_syms:
  "real_bar en days interval e syms (dt, s) = Some b \<Longrightarrow> s \<in> set syms"
  by (simp add: real_bar_pair split: if_splits)

lemma callbacks_on_bars:
  "foldl (\<lambda>e' bs. call_on_bars en r bs e') e1
     (bars_sequence (real_bar en days interval e syms) syms (bar_times en days interval e syms) []) =
   foldl (\<lambda>e' bs. call_strategy_func r (on_bars en r bs) e') e1
     (bars_sequence (real_bar en days interval e syms) syms (bar_times en days interval e syms) [])"
proof (rule foldl_cong)
  fix a bs
  assume "bs \<in> set (bars_sequence (real_bar en days interval e syms) syms
      (bar_times en days interval e syms) [])"
  then obtain k where "k < length (bar_times en days interval e syms)"
    and "bs = bars_sequence (real_bar en days interval e syms) syms
      (bar_times en days interval e syms) [] ! k"
    by (auto simp add: in_set_conv_nth bars_sequence_length)
  then have "bs \<noteq> []"
    using callbacks_not_empty [of k en days interval e syms] by simp
  then show "call_on_bars en r bs a = call_strategy_func r (on_bars en r bs) a"
    by (simp add: call_on_bars_def)
qed simp_all

lemma flat_bar_prices:
  "bar_open_price (flat_bar b dt) = bar_close_price b"
  "bar_high_price (flat_bar b dt) = bar_close_price b"
  "bar_low_price (flat_bar b dt) = bar_close_price b"
  "bar_close_price (flat_bar b dt) = bar_close_price b"
  "bar_datetime (flat_bar b dt) = dt"
  by (simp_all add: flat_bar_def)

text \<open>
  C7. When every contract name of the strategy splits, \<^verbatim>\<open>load_bars\<close> returns the state
  reached by calling the strategy's \<^verbatim>\<open>on_bars\<close> hook, under the fault isolation of
  \<^verbatim>\<open>call_strategy_func\<close>, once per time in ascending order, with the successive values of
  the \<^verbatim>\<open>bars\<close> dictionary, none of which is empty. At the \<open>k\<close>-th time the dictionary
  holds, for a contract with a real bar at that time, that bar; for a contract without
  one whose last real bar \<open>b0\<close> was at an earlier time, the flat bar of \<open>b0\<close> at the time
  of the callback, its open, high, low and close all equal to the close of \<open>b0\<close>; and
  no entry for a contract with no real bar up to that time.
\<close>

theorem load_bars_forward_fill:
  assumes "\<forall>s\<in>set (vt_symbols (objs e r)). extract_vt_symbol en s \<noteq> None"
  shows "let syms = vt_symbols (objs e r);
             H = real_bar en days interval e syms;
             T = bar_times en days interval e syms;
             seq = bars_sequence H syms T []
         in load_bars en r days interval e =
              Inr (foldl (\<lambda>e' bs. call_strategy_func r (on_bars en r bs) e')
                     (loaded_state en days interval e syms) seq)
          \<and> length seq = length T \<and> sorted T \<and> distinct T
          \<and> (k < length T \<longrightarrow>
                seq ! k \<noteq> []
              \<and> (H (T ! k, s) = Some b \<longrightarrow> map_of (seq ! k) s = Some b)
              \<and> (j < k \<and> H (T ! j, s) = Some b0
                   \<and> (\<forall>m. j < m \<and> m \<le> k \<longrightarrow> H (T ! m, s) = None) \<longrightarrow>
                   map_of (seq ! k) s = Some (flat_bar b0 (T ! k))
                   \<and> bar_open_price (flat_bar b0 (T ! k)) = bar_close_price b0
                   \<and> bar_high_price (flat_bar b0 (T ! k)) = bar_close_price b0
                   \<and> bar_low_price (flat_bar b0 (T ! k)) = bar_close_price b0
                   \<and> bar_close_price (flat_bar b0 (T ! k)) = bar_close_price b0)
              \<and> ((\<forall>j\<le>k. H (T ! j, s) = None) \<longrightarrow> map_of (seq ! k) s = None))"
proof -
  define syms where "syms = vt_symbols (objs e r)"
  define H where "H = real_bar en days interval e syms"
  define T where "T = bar_times en days interval e syms"
  define seq where "seq = bars_sequence H syms T []"
  have run: "load_bars en r days interval e =
      Inr (foldl (\<lambda>e' bs. call_strategy_func r (on_bars en r bs) e')
             (loaded_state en days interval e syms) seq)"
    unfolding seq_def H_def T_def syms_def
    by (simp add: load_bars_callbacks [OF assms] callbacks_on_bars)
  have len: "length seq = length T"
    by (simp add: seq_def bars_sequence_length)
  have srt: "sorted T" "distinct T"
    by (simp_all add: T_def bar_times_def)
  have ne: "seq ! k \<noteq> []" if "k < length T"
    using that callbacks_not_empty [of k en days interval e syms]
    by (simp add: seq_def H_def T_def)
  have real: "map_of (seq ! k) s = Some b" if "k < length T" and "H (T ! k, s) = Some b"
  proof -
    from that(2) have "s \<in> set syms"
      unfolding H_def by (rule real_bar_in_syms)
    with that show ?thesis
      unfolding seq_def by (simp add: seq_real_bar)
  qed
  have gap: "map_of (seq ! k) s = Some (flat_bar b0 (T ! k))"
    if "k < length T" and "j < k" and "H (T ! j, s) = Some b0"
      and "\<forall>m. j < m \<and> m \<le> k \<longrightarrow> H (T ! m, s) = None"
  proof -
    from that(3) have "s \<in> set syms"
      unfolding H_def by (rule real_bar_in_syms)
    with that show ?thesis
      unfolding seq_def by (intro seq_forward_fill) simp_all
  qed
  have none: "map_of (seq ! k) s = None" if "k < length T" and "\<forall>j\<le>k. H (T ! j, s) = None"
    using that unfolding seq_def by (rule seq_no_bar_yet)
  show ?thesis
    unfolding Let_def syms_def [symmetric] H_def [symmetric] T_def [symmetric] seq_def [symmetric]
    using run len srt ne real gap none
    by (simp add: flat_bar_prices)
qed

lemmas demo_bars_defs = demo_bars_env_def demo_pair_engine_def demo_feed_bar_def report_bars_def
  demo_env_def demo_engine_def demo_strategy_def demo_contract_def demo_bar_def

lemma demo_bar_data:
  "bar_data demo_bars_env 1 MINUTE demo_pair_engine ''A.X'' = [demo_bar 120 20]"
  "bar_data demo_bars_env 1 MINUTE demo_pair_engine ''B.Y'' =
     [demo_feed_bar \<lparr>hist_symbol = ''B'', hist_exchange = ''Y'', hist_interval = MINUTE,
                     hist_start = 0, hist_end = 86400\<rparr>]"
  by (simp_all add: bar_data_def load_bar_def Let_def demo_bars_env_def demo_env_def
      demo_contract_def)

theorem load_bars_forward_fill_witness:
  "extract_vt_symbol demo_bars_env ''A.X'' = Some (''A'', ''X'')
   \<and> extract_vt_symbol demo_bars_env ''B.Y'' = Some (''B'', ''Y'')
   \<and> vt_symbols (objs demo_pair_engine 0) = [''A.X'', ''B.Y'']
   \<and> bar_times demo_bars_env 1 MINUTE demo_pair_engine [''A.X'', ''B.Y''] = [60, 120]
   \<and> real_bar demo_bars_env 1 MINUTE demo_pair_engine [''A.X'', ''B.Y''] (60, ''B.Y'') =
       Some (demo_feed_bar \<lparr>hist_symbol = ''B'', hist_exchange = ''Y'', hist_interval = MINUTE,
                             hist_start = 0, hist_end = 86400\<rparr>)
   \<and> real_bar demo_bars_env 1 MINUTE demo_pair_engine [''A.X'', ''B.Y''] (120, ''B.Y'') = None
   \<and> map_of (bars_sequence (real_bar demo_bars_env 1 MINUTE demo_pair_engine [''A.X'', ''B.Y''])
               [''A.X'', ''B.Y''] [60, 120] [] ! 1) ''B.Y'' =
       Some (flat_bar (demo_feed_bar \<lparr>hist_symbol = ''B'', hist_exchange = ''Y'',
                                       hist_interval = MINUTE, hist_start = 0, hist_end = 86400\<rparr>) 120)
   \<and> map_sum id (\<lambda>e'. drop 3 (calls e')) (load_bars demo_bars_env 0 1 MINUTE demo_pair_engine) =
       Inr [EventPut (PortfolioStrategy
              \<lparr>info_strategy_name = ''s1'', info_vt_symbols = [''B.Y''],
               info_class_name = ''Demo'', info_author = [],
               info_parameters = [(''B.Y'', Prim (PFloat 11))],
               info_variables = [(''B.Y'', Prim (PFloat 10))]\<rparr>),
            EventPut (PortfolioStrategy
              \<lparr>info_strategy_name = ''s1'', info_vt_symbols = [''B.Y'', ''A.X''],
               info_class_name = ''Demo'', info_author = [],
               info_parameters = [(''B.Y'', Prim (PFloat 10)), (''A.X'', Prim (PFloat 21))],
               info_variables = [(''B.Y'', Prim (PFloat 10)), (''A.X'', Prim (PFloat 20))]\<rparr>)]"
proof -
  have x: "extract_vt_symbol demo_bars_env ''A.X'' = Some (''A'', ''X'')"
    "extract_vt_symbol demo_bars_env ''B.Y'' = Some (''B'', ''Y'')"
    by (simp_all add: demo_bars_env_def demo_env_def)
  have syms: "vt_symbols (objs demo_pair_engine 0) = [''A.X'', ''B.Y'']"
    by (simp add: demo_pair_engine_def demo_engine_def demo_strategy_def)
  have ok: "\<forall>s\<in>set (vt_symbols (objs demo_pair_engine 0)). extract_vt_symbol demo_bars_env s \<noteq> None"
    by (simp add: syms x)
  have times: "bar_times demo_bars_env 1 MINUTE demo_pair_engine [''A.X'', ''B.Y''] = [60, 120]"
    by (simp add: bar_times_def demo_bar_data demo_bar_def demo_feed_bar_def)
  have real: "real_bar demo_bars_env 1 MINUTE demo_pair_engine [''A.X'', ''B.Y''] (60, ''B.Y'') =
       Some (demo_feed_bar \<lparr>hist_symbol = ''B'', hist_exchange = ''Y'', hist_interval = MINUTE,
                             hist_start = 0, hist_end = 86400\<rparr>)"
    "real_bar demo_bars_env 1 MINUTE demo_pair_engine [''A.X'', ''B.Y''] (120, ''B.Y'') = None"
    by (simp_all add: real_bar_pair demo_bar_data demo_bar_def demo_feed_bar_def)
  have between: "\<forall>m. (0::nat) < m \<and> m \<le> 1 \<longrightarrow>
      real_bar demo_bars_env 1 MINUTE demo_pair_engine [''A.X'', ''B.Y''] ([60, 120] ! m, ''B.Y'') = None"
  proof (intro allI impI)
    fix m :: nat
    assume "0 < m \<and> m \<le> 1"
    then have "m = 1" by simp
    then show "real_bar demo_bars_env 1 MINUTE demo_pair_engine [''A.X'', ''B.Y'']
        ([60, 120] ! m, ''B.Y'') = None"
      by (simp add: real)
  qed
  note th = load_bars_forward_fill
    [OF ok, where days = 1 and interval = MINUTE and k = 1 and s = "''B.Y''" and j = 0
      and ?b0.0 = "demo_feed_bar \<lparr>hist_symbol = ''B'', hist_exchange = ''Y'',
                                   hist_interval = MINUTE, hist_start = 0, hist_end = 86400\<rparr>",
      unfolded Let_def syms times]
  have gap: "map_of (bars_sequence (real_bar demo_bars_env 1 MINUTE demo_pair_engine [''A.X'', ''B.Y''])
               [''A.X'', ''B.Y''] [60, 120] [] ! 1) ''B.Y'' =
       Some (flat_bar (demo_feed_bar \<lparr>hist_symbol = ''B'', hist_exchange = ''Y'',
                                       hist_interval = MINUTE, hist_start = 0, hist_end = 86400\<rparr>) 120)"
    using th between by (simp add: real)
  have run: "map_sum id (\<lambda>e'. drop 3 (calls e')) (load_bars demo_bars_env 0 1 MINUTE demo_pair_engine) =
       Inr [EventPut (PortfolioStrategy
              \<lparr>info_strategy_name = ''s1'', info_vt_symbols = [''B.Y''],
               info_class_name = ''Demo'', info_author = [],
               info_parameters = [(''B.Y'', Prim (PFloat 11))],
               info_variables = [(''B.Y'', Prim (PFloat 10))]\<rparr>),
            EventPut (PortfolioStrategy
              \<lparr>info_strategy_name = ''s1'', info_vt_symbols = [''B.Y'', ''A.X''],
               info_class_name = ''Demo'', info_author = [],
               info_parameters = [(''B.Y'', Prim (PFloat 10)), (''A.X'', Prim (PFloat 21))],
               info_variables = [(''B.Y'', Prim (PFloat 10)), (''A.X'', Prim (PFloat 20))]\<rparr>)]"
    by (simp add: load_bars_def load_bar_def Let_def demo_bars_defs call_on_bars_def
        call_strategy_func_def flat_bar_def)
  show ?thesis
    using x syms times real gap run by simp
qed

end
